theory Spec2Isabelle
  imports Complex_Main "HOL-Library.Word" "HOL-Library.Signed_Division"
begin

unbundle bit_operations_syntax

section \<open>Data model\<close>

text \<open>
  The program is \<^verbatim>\<open>src/tinyraytracer.cpp\<close>.  Its \<^verbatim>\<open>float\<close> and \<^verbatim>\<open>double\<close>
  quantities are modelled as real numbers with exact arithmetic: rounding, infinities
  and NaN are not part of this model, and every statement below about a computed
  number is a statement about the exact value.  The machine integers \<^verbatim>\<open>size_t\<close> and
  \<^verbatim>\<open>int\<close> are 64-bit and 32-bit words where a conversion between them matters
  (the recursion depth), and mathematical integers where the values stay far from the
  bounds (pixel and buffer indices below \<open>1024 * 768\<close>).
\<close>

subsection \<open>Vectors\<close>

text \<open>
  Modelled from the spec: \<^verbatim>\<open>geometry.h\<close> (the types \<^verbatim>\<open>Vec3f\<close>, \<^verbatim>\<open>Vec4f\<close> and their
  operators) is included by the program but is not among its sources.  The spec gives
  fixed-size float tuples with add, subtract, scale, dot product (\<^verbatim>\<open>*\<close> between two
  vectors), negation, Euclidean norm, normalize (with no guard for the zero vector) and
  indexed component access; a default-constructed vector is taken to be zero, as the
  default material's "black diffuse" colour requires.
\<close>

datatype Vec3f = Vec3f (vec_x: real) (vec_y: real) (vec_z: real)

datatype Vec4f = Vec4f real real real real

instantiation Vec3f :: "{zero, plus, minus, uminus}"
begin

definition zero_Vec3f :: Vec3f where
  "zero_Vec3f = Vec3f 0 0 0"

definition plus_Vec3f :: "Vec3f \<Rightarrow> Vec3f \<Rightarrow> Vec3f" where
  "plus_Vec3f a b = Vec3f (vec_x a + vec_x b) (vec_y a + vec_y b) (vec_z a + vec_z b)"

definition minus_Vec3f :: "Vec3f \<Rightarrow> Vec3f \<Rightarrow> Vec3f" where
  "minus_Vec3f a b = Vec3f (vec_x a - vec_x b) (vec_y a - vec_y b) (vec_z a - vec_z b)"

definition uminus_Vec3f :: "Vec3f \<Rightarrow> Vec3f" where
  "uminus_Vec3f a = Vec3f (- vec_x a) (- vec_y a) (- vec_z a)"

instance ..

end

text \<open>\<^verbatim>\<open>a * b\<close> on two vectors (dot product) and \<^verbatim>\<open>v * k\<close> (uniform scale).\<close>

definition dot :: "Vec3f \<Rightarrow> Vec3f \<Rightarrow> real" where
  "dot a b = vec_x a * vec_x b + vec_y a * vec_y b + vec_z a * vec_z b"

definition scale_vec :: "Vec3f \<Rightarrow> real \<Rightarrow> Vec3f" where
  "scale_vec v k = Vec3f (vec_x v * k) (vec_y v * k) (vec_z v * k)"

definition norm_vec :: "Vec3f \<Rightarrow> real" where
  "norm_vec v = sqrt (vec_x v * vec_x v + vec_y v * vec_y v + vec_z v * vec_z v)"

text \<open>
  \<^verbatim>\<open>normalize\<close> scales by \<open>1 / norm\<close>.  For the zero vector the program divides by
  zero; HOL's \<open>1 / 0 = 0\<close> makes the model return the zero vector there, which says
  nothing about the program.
\<close>

definition normalize_vec :: "Vec3f \<Rightarrow> Vec3f" where
  "normalize_vec v = scale_vec v (1 / norm_vec v)"

text \<open>Indexed component access \<^verbatim>\<open>v[i]\<close>.\<close>

fun at3 :: "Vec3f \<Rightarrow> nat \<Rightarrow> real" where
  "at3 (Vec3f a b c) i = (if i = 0 then a else if i = 1 then b else c)"

fun at4 :: "Vec4f \<Rightarrow> nat \<Rightarrow> real" where
  "at4 (Vec4f a b c d) i = (if i = 0 then a else if i = 1 then b else if i = 2 then c else d)"

subsection \<open>Scene\<close>

record Light =
  position :: Vec3f
  intensity :: real

record MMaterial =
  refractive_index :: real
  albedo :: Vec4f
  diffuse_color :: Vec3f
  specular_exponent :: real

text \<open>The default constructor \<^verbatim>\<open>MMaterial()\<close>.\<close>

definition default_material :: MMaterial where
  "default_material =
     \<lparr>refractive_index = 1, albedo = Vec4f 1 0 0 0, diffuse_color = 0, specular_exponent = 0\<rparr>"

record Sphere =
  center :: Vec3f
  radius :: real
  material :: MMaterial

section \<open>Intersection\<close>

text \<open>
  \<^verbatim>\<open>Sphere::ray_intersect\<close> returns a boolean and writes the distance through the
  reference \<^verbatim>\<open>t0\<close>.  Its callers read \<^verbatim>\<open>t0\<close> only after \<^verbatim>\<open>true\<close>, so the model
  returns \<open>Some t0\<close> for \<^verbatim>\<open>true\<close> and \<open>None\<close> for \<^verbatim>\<open>false\<close>.
\<close>

definition ray_intersect :: "Sphere \<Rightarrow> Vec3f \<Rightarrow> Vec3f \<Rightarrow> real option" where
  "ray_intersect s orig dir =
     (let L = center s - orig;
          tca = dot L dir;
          d2 = dot L L - tca * tca;
          radius2 = radius s * radius s
      in if d2 > radius2 then None
         else
           let thc = sqrt (radius2 - d2);
               t0 = tca - thc;
               t1 = tca + thc;
               t0 = (if t0 < 0 then t1 else t0)
           in if t0 < 0 then None else Some t0)"


text \<open>\<^verbatim>\<open>std::numeric_limits<float>::max()\<close>, that is \<open>(2 - 2\<^sup>-\<^sup>2\<^sup>3) * 2\<^sup>1\<^sup>2\<^sup>7\<close>.\<close>

definition flt_max :: real where
  "flt_max = (2 ^ 24 - 1) * 2 ^ 104"

text \<open>
  Conversion of a floating value to \<^verbatim>\<open>int\<close>, written \<^verbatim>\<open>int(e)\<close> in the source:
  the fractional part is discarded (truncation toward zero).
\<close>

definition int_of_float :: "real \<Rightarrow> int" where
  "int_of_float v = (if 0 \<le> v then \<lfloor>v\<rfloor> else \<lceil>v\<rceil>)"

text \<open>
  The procedural colour of the plane at a hit point, before dimming:
  \<^verbatim>\<open>(int(.5 * hit.x + 1000) + int(.5 * hit.z)) & 1 ? Vec3f(1, 1, 1) : Vec3f(1, .7, .3)\<close>.
\<close>

definition checkerboard_color :: "Vec3f \<Rightarrow> Vec3f" where
  "checkerboard_color hit =
     (if (int_of_float (0.5 * vec_x hit + 1000) + int_of_float (0.5 * vec_z hit)) AND 1 \<noteq> 0
      then Vec3f 1 1 1 else Vec3f 1 0.7 0.3)"

text \<open>
  The loop of \<^verbatim>\<open>scene_intersect\<close> over the spheres.  Its state is
  \<open>(spheres_dist, hit, N, material)\<close>; the last three are the caller's variables,
  passed by reference and overwritten each time a sphere is hit nearer than all
  spheres before it.
\<close>

fun spheres_loop ::
  "Vec3f \<Rightarrow> Vec3f \<Rightarrow> Sphere list \<Rightarrow> real \<times> Vec3f \<times> Vec3f \<times> MMaterial
     \<Rightarrow> real \<times> Vec3f \<times> Vec3f \<times> MMaterial" where
  "spheres_loop orig dir [] st = st"
| "spheres_loop orig dir (s # ss) (spheres_dist, hit, N, mat) =
     spheres_loop orig dir ss
       (case ray_intersect s orig dir of
          None \<Rightarrow> (spheres_dist, hit, N, mat)
        | Some dist_i \<Rightarrow>
            if dist_i < spheres_dist then
              let hit' = orig + scale_vec dir dist_i
              in (dist_i, hit', normalize_vec (hit' - center s), material s)
            else (spheres_dist, hit, N, mat))"

text \<open>
  \<^verbatim>\<open>scene_intersect\<close>.  The arguments \<open>hit\<close>, \<open>N\<close> and \<open>mat\<close> are the values the
  caller's variables hold at the call; the result is the returned boolean with their
  values at the return.
\<close>

definition scene_intersect ::
  "Vec3f \<Rightarrow> Vec3f \<Rightarrow> Sphere list \<Rightarrow> Vec3f \<Rightarrow> Vec3f \<Rightarrow> MMaterial
     \<Rightarrow> bool \<times> Vec3f \<times> Vec3f \<times> MMaterial" where
  "scene_intersect orig dir spheres hit N mat =
     (case spheres_loop orig dir spheres (flt_max, hit, N, mat) of
        (spheres_dist, hit, N, mat) \<Rightarrow>
          (case
             (if \<bar>vec_y dir\<bar> > 1 / 1000 then
                let d = - (vec_y orig + 4) / vec_y dir;
                    pt = orig + scale_vec dir d
                in if d > 0 \<and> \<bar>vec_x pt\<bar> < 10 \<and> vec_z pt < - 10 \<and> vec_z pt > - 30 \<and>
                      d < spheres_dist
                   then (d, pt, Vec3f 0 1 0,
                         mat\<lparr>diffuse_color := scale_vec (checkerboard_color pt) 0.3\<rparr>)
                   else (flt_max, hit, N, mat)
              else (flt_max, hit, N, mat))
           of (checkerboard_dist, hit, N, mat) \<Rightarrow>
             (min spheres_dist checkerboard_dist < 1000, hit, N, mat)))"

text \<open>
  The plane test of \<^verbatim>\<open>scene_intersect\<close>, named for the statements about it: the
  point where the ray meets the plane \<open>y = -4\<close>, and the condition under which the
  plane replaces the nearest sphere (\<open>spheres_dist\<close> is the distance the loop over the
  spheres has left).
\<close>

definition plane_point :: "Vec3f \<Rightarrow> Vec3f \<Rightarrow> Vec3f" where
  "plane_point orig dir = orig + scale_vec dir (- (vec_y orig + 4) / vec_y dir)"

definition plane_accepted :: "Vec3f \<Rightarrow> Vec3f \<Rightarrow> real \<Rightarrow> bool" where
  "plane_accepted orig dir spheres_dist =
     (\<bar>vec_y dir\<bar> > 1 / 1000 \<and>
      (- (vec_y orig + 4) / vec_y dir > 0 \<and>
       \<bar>vec_x (plane_point orig dir)\<bar> < 10 \<and> vec_z (plane_point orig dir) < - 10 \<and>
       vec_z (plane_point orig dir) > - 30 \<and> - (vec_y orig + 4) / vec_y dir < spheres_dist))"

text \<open>
  A sphere \<open>s\<close> of the list that the ray meets at distance \<open>d\<close>, no sphere of the list
  being met nearer.
\<close>

definition nearest_hit :: "Vec3f \<Rightarrow> Vec3f \<Rightarrow> Sphere list \<Rightarrow> Sphere \<Rightarrow> real \<Rightarrow> bool" where
  "nearest_hit orig dir ss s d =
     (s \<in> set ss \<and> ray_intersect s orig dir = Some d \<and>
      (\<forall>s'\<in>set ss. \<forall>d'. ray_intersect s' orig dir = Some d' \<longrightarrow> d \<le> d'))"

section \<open>Reflection and refraction\<close>

definition reflect :: "Vec3f \<Rightarrow> Vec3f \<Rightarrow> Vec3f" where
  "reflect I N = I - scale_vec (scale_vec N 2) (dot I N)"

definition refract :: "Vec3f \<Rightarrow> Vec3f \<Rightarrow> real \<Rightarrow> Vec3f" where
  "refract I N refr_index =
     (let cosi = - max (- 1) (min 1 (dot I N));
          (cosi, etai, etat, n) =
             (if cosi < 0 then (- cosi, refr_index, 1, - N) else (cosi, 1, refr_index, N));
          eta = etai / etat;
          k = 1 - eta * eta * (1 - cosi * cosi)
      in if k < 0 then Vec3f 0 0 0
         else scale_vec I eta + scale_vec n (eta * cosi - sqrt k))"

section \<open>Shading\<close>

text \<open>
  \<^verbatim>\<open>powf\<close> on a base that is not negative (the program applies it to
  \<^verbatim>\<open>std::max(0.f, ...)\<close>): \<open>powf 0 0 = 1\<close>, where HOL's \<open>0 powr 0\<close> is \<open>0\<close>.
\<close>

definition powf :: "real \<Rightarrow> real \<Rightarrow> real" where
  "powf b e = (if b = 0 \<and> e = 0 then 1 else b powr e)"

text \<open>The origin of a secondary ray, moved off the surface along the normal.\<close>

definition offset_orig :: "Vec3f \<Rightarrow> Vec3f \<Rightarrow> Vec3f \<Rightarrow> Vec3f" where
  "offset_orig d point N =
     (if dot d N < 0 then point - scale_vec N (1 / 1000) else point + scale_vec N (1 / 1000))"

text \<open>
  The shadow test of one light in \<^verbatim>\<open>cast_ray\<close>: the condition of the \<^verbatim>\<open>if\<close> whose
  body is \<^verbatim>\<open>continue\<close>.
\<close>

definition in_shadow :: "Sphere list \<Rightarrow> Vec3f \<Rightarrow> Vec3f \<Rightarrow> Light \<Rightarrow> bool" where
  "in_shadow spheres point N l =
     (let light_dir = normalize_vec (position l - point);
          light_distance = norm_vec (position l - point);
          shadow_orig = offset_orig light_dir point N
      in case scene_intersect shadow_orig light_dir spheres 0 0 default_material of
           (occluder, shadow_pt, shadow_N, tmpmaterial) \<Rightarrow>
             occluder \<and> norm_vec (shadow_pt - shadow_orig) < light_distance)"

text \<open>
  The loop over the lights; the state is
  \<open>(diffuse_light_intensity, specular_light_intensity)\<close>.
\<close>

fun lights_loop ::
  "Sphere list \<Rightarrow> Vec3f \<Rightarrow> Vec3f \<Rightarrow> Vec3f \<Rightarrow> MMaterial \<Rightarrow> Light list \<Rightarrow> real \<times> real
     \<Rightarrow> real \<times> real" where
  "lights_loop spheres dir point N mat [] acc = acc"
| "lights_loop spheres dir point N mat (l # ls) (diffuse, specular) =
     lights_loop spheres dir point N mat ls
       (if in_shadow spheres point N l then (diffuse, specular)
        else
          let light_dir = normalize_vec (position l - point)
          in (diffuse + intensity l * max 0 (dot light_dir N),
              specular +
                powf (max 0 (dot (- reflect (- light_dir) N) dir)) (specular_exponent mat) *
                  intensity l))"

text \<open>
  The two summands the loop adds for a light that is not in shadow, named for the
  statements about them.
\<close>

definition diffuse_term :: "Vec3f \<Rightarrow> Vec3f \<Rightarrow> Light \<Rightarrow> real" where
  "diffuse_term point N l =
     intensity l * max 0 (dot (normalize_vec (position l - point)) N)"

definition specular_term :: "Vec3f \<Rightarrow> Vec3f \<Rightarrow> Vec3f \<Rightarrow> MMaterial \<Rightarrow> Light \<Rightarrow> real" where
  "specular_term dir point N mat l =
     powf (max 0 (dot (- reflect (- normalize_vec (position l - point)) N) dir))
       (specular_exponent mat) * intensity l"

definition background :: Vec3f where
  "background = Vec3f 0.2 0.7 0.8"

text \<open>
  The test \<^verbatim>\<open>depth > maxDepth\<close> compares a \<^verbatim>\<open>size_t\<close> with an \<^verbatim>\<open>int\<close>: the \<^verbatim>\<open>int\<close>
  is converted to \<^verbatim>\<open>size_t\<close> (sign extension to 64 bits) and the comparison is
  unsigned.
\<close>

definition depth_exceeded :: "64 word \<Rightarrow> 32 word \<Rightarrow> bool" where
  "depth_exceeded depth maxDepth = ((scast maxDepth :: 64 word) < depth)"

text \<open>
  \<^verbatim>\<open>cast_ray\<close>.  The recursion of the program is bounded only by the test on
  \<open>depth\<close>, so the model carries fuel: the number of nested activations of
  \<^verbatim>\<open>cast_ray\<close> the call may use, this one included.  \<open>None\<close> means that the fuel
  did not suffice.
\<close>

fun cast_ray ::
  "nat \<Rightarrow> Vec3f \<Rightarrow> Vec3f \<Rightarrow> Sphere list \<Rightarrow> Light list \<Rightarrow> 64 word \<Rightarrow> 32 word
     \<Rightarrow> Vec3f option" where
  "cast_ray 0 orig dir spheres lights depth maxDepth = None"
| "cast_ray (Suc fuel) orig dir spheres lights depth maxDepth =
     (if depth_exceeded depth maxDepth then Some background
      else
        case scene_intersect orig dir spheres 0 0 default_material of
          (found, point, N, mat) \<Rightarrow>
            if \<not> found then Some background
            else
              let reflect_dir = normalize_vec (reflect dir N);
                  refract_dir = normalize_vec (refract dir N (refractive_index mat));
                  reflect_orig = offset_orig reflect_dir point N;
                  refract_orig = offset_orig refract_dir point N
              in case cast_ray fuel reflect_orig reflect_dir spheres lights (depth + 1) maxDepth of
                   None \<Rightarrow> None
                 | Some reflect_color \<Rightarrow>
                     (case cast_ray fuel refract_orig refract_dir spheres lights (depth + 1) maxDepth of
                        None \<Rightarrow> None
                      | Some refract_color \<Rightarrow>
                          (case lights_loop spheres dir point N mat lights (0, 0) of
                             (diffuse_light_intensity, specular_light_intensity) \<Rightarrow>
                               Some
                                 (scale_vec (scale_vec (diffuse_color mat) diffuse_light_intensity)
                                    (at4 (albedo mat) 0) +
                                  scale_vec (scale_vec (Vec3f 1 1 1) specular_light_intensity)
                                    (at4 (albedo mat) 1) +
                                  scale_vec reflect_color (at4 (albedo mat) 2) +
                                  scale_vec refract_color (at4 (albedo mat) 3)))))"

section \<open>Frame assembly and the rectangle compressor\<close>

definition width :: int where
  "width = 1024"

definition height :: int where
  "height = 768"

text \<open>
  \<^verbatim>\<open>const int fov = 3.14159265 / 2;\<close>: the quotient is a \<^verbatim>\<open>double\<close>, and the
  initialisation of an \<^verbatim>\<open>int\<close> from it discards the fractional part.
\<close>

definition fov :: int where
  "fov = int_of_float (3.14159265 / 2)"

text \<open>
  What stops \<^verbatim>\<open>render\<close> before it returns: an integer division by zero, the
  exception of \<^verbatim>\<open>std::vector\<close>'s constructor for a size beyond \<^verbatim>\<open>max_size()\<close>
  (a negative \<^verbatim>\<open>int\<close> converted to \<^verbatim>\<open>size_t\<close>), an index outside the vector, a
  \<^verbatim>\<open>cast_ray\<close> that does not return, and a conversion to \<^verbatim>\<open>unsigned char\<close> of a
  value outside its range.
\<close>

datatype fault = DivisionByZero | LengthError | OutOfBounds | NoReturn | CharRange

text \<open>A counted loop whose body may stop the function.\<close>

fun for_loop :: "nat list \<Rightarrow> (nat \<Rightarrow> 's \<Rightarrow> fault + 's) \<Rightarrow> 's \<Rightarrow> fault + 's" where
  "for_loop [] body st = Inr st"
| "for_loop (i # is) body st =
     (case body i st of Inl e \<Rightarrow> Inl e | Inr st' \<Rightarrow> for_loop is body st')"

text \<open>\<^verbatim>\<open>framebuffer[k]\<close>, read and written.\<close>

definition fb_read :: "Vec3f list \<Rightarrow> int \<Rightarrow> fault + Vec3f" where
  "fb_read fb k = (if 0 \<le> k \<and> k < int (length fb) then Inr (fb ! nat k) else Inl OutOfBounds)"

definition fb_write :: "Vec3f list \<Rightarrow> int \<Rightarrow> Vec3f \<Rightarrow> fault + Vec3f list" where
  "fb_write fb k c =
     (if 0 \<le> k \<and> k < int (length fb) then Inr (fb[nat k := c]) else Inl OutOfBounds)"

text \<open>The direction of the primary ray of pixel \<open>(i, j)\<close>.\<close>

definition primary_dir :: "int \<Rightarrow> nat \<Rightarrow> nat \<Rightarrow> Vec3f" where
  "primary_dir scale i j =
     (let x = (2 * (real i + 0.5) / real_of_int (width sdiv scale) - 1) *
                tan (real_of_int fov / 2) * real_of_int (width sdiv scale) /
                real_of_int (height sdiv scale);
          y = - (2 * (real j + 0.5) / real_of_int (height sdiv scale) - 1) *
                tan (real_of_int fov / 2)
      in normalize_vec (Vec3f x y (- 1)))"

text \<open>
  The first pair of loops of \<^verbatim>\<open>render\<close>, which fills the framebuffer:
  \<^verbatim>\<open>framebuffer[i + j * width] = cast_ray(Vec3f(0, 0, 0), dir, spheres, lights, 0, maxDepth)\<close>.
\<close>

definition pixel_color ::
  "nat \<Rightarrow> Sphere list \<Rightarrow> Light list \<Rightarrow> int \<Rightarrow> 32 word \<Rightarrow> nat \<Rightarrow> nat \<Rightarrow> Vec3f option" where
  "pixel_color fuel spheres lights scale maxDepth i j =
     cast_ray fuel (Vec3f 0 0 0) (primary_dir scale i j) spheres lights 0 maxDepth"

definition fill_pixel ::
  "nat \<Rightarrow> Sphere list \<Rightarrow> Light list \<Rightarrow> int \<Rightarrow> 32 word \<Rightarrow> nat \<Rightarrow> nat \<Rightarrow> Vec3f list
     \<Rightarrow> fault + Vec3f list" where
  "fill_pixel fuel spheres lights scale maxDepth j i fb =
     (case pixel_color fuel spheres lights scale maxDepth i j of
        None \<Rightarrow> Inl NoReturn
      | Some c \<Rightarrow> fb_write fb (int i + int j * width) c)"

definition fill_framebuffer ::
  "nat \<Rightarrow> Sphere list \<Rightarrow> Light list \<Rightarrow> int \<Rightarrow> 32 word \<Rightarrow> Vec3f list \<Rightarrow> fault + Vec3f list" where
  "fill_framebuffer fuel spheres lights scale maxDepth fb =
     for_loop [0..<nat (height sdiv scale)]
       (\<lambda>j. for_loop [0..<nat (width sdiv scale)]
          (fill_pixel fuel spheres lights scale maxDepth j)) fb"

text \<open>
  The rectangles handed to \<^verbatim>\<open>DrawRectangle\<close>: position, width, height and colour.
  A colour channel is \<^verbatim>\<open>(unsigned char)(255 * c)\<close>, a truncation that is defined only
  when the truncated value fits.
\<close>

datatype Color = Color nat nat nat nat

datatype Rectangle = DrawRectangle int int int int Color

definition uchar_of_float :: "real \<Rightarrow> nat option" where
  "uchar_of_float v = (if - 1 < v \<and> v < 256 then Some (nat (int_of_float v)) else None)"

definition color_of :: "Vec3f \<Rightarrow> fault + Color" where
  "color_of c =
     (case (uchar_of_float (255 * at3 c 0), uchar_of_float (255 * at3 c 1),
            uchar_of_float (255 * at3 c 2)) of
        (Some r, Some g, Some b) \<Rightarrow> Inr (Color r g b 255)
      | _ \<Rightarrow> Inl CharRange)"

text \<open>\<^verbatim>\<open>if (max > 1) c = c * (1. / max)\<close>, applied to \<^verbatim>\<open>currentColor\<close> in place.\<close>

definition color_correction :: "Vec3f \<Rightarrow> Vec3f" where
  "color_correction c =
     (let m = max (at3 c 0) (max (at3 c 1) (at3 c 2))
      in if m > 1 then scale_vec c (1 / m) else c)"

text \<open>
  One iteration of the inner loop of the compressor, at column \<open>col\<close> of the row that
  starts at index \<open>oldStartIdx\<close>.  The state is \<open>(startIdx, currentColor, drawn)\<close>,
  \<open>drawn\<close> being the rectangles drawn so far, in order.
\<close>

definition compress_step ::
  "Vec3f list \<Rightarrow> int \<Rightarrow> int \<Rightarrow> nat \<Rightarrow> int \<times> Vec3f \<times> Rectangle list
     \<Rightarrow> fault + int \<times> Vec3f \<times> Rectangle list" where
  "compress_step fb scale oldStartIdx col st =
     (case st of (startIdx, currentColor, drawn) \<Rightarrow>
        let idx = oldStartIdx + int col;
            endRow = (int col = width sdiv scale - 1)
        in case fb_read fb idx of
             Inl e \<Rightarrow> Inl e
           | Inr px \<Rightarrow>
               let colorChange =
                     (at3 px 0 \<noteq> at3 currentColor 0 \<or> at3 px 1 \<noteq> at3 currentColor 1 \<or>
                      at3 px 2 \<noteq> at3 currentColor 2)
               in if endRow \<or> colorChange then
                    let currentColor = color_correction currentColor;
                        x = (startIdx smod width) * scale;
                        y = (startIdx sdiv width) * scale;
                        rectWidth = (int col - startIdx smod (width sdiv scale)) * scale;
                        rectHeight = scale
                    in case color_of currentColor of
                         Inl e \<Rightarrow> Inl e
                       | Inr rgba \<Rightarrow>
                           let drawn = drawn @ [DrawRectangle x y rectWidth rectHeight rgba]
                           in if colorChange then Inr (idx, px, drawn)
                              else Inr (startIdx, currentColor, drawn)
                  else Inr (startIdx, currentColor, drawn))"

text \<open>The compressor on one row: columns \<open>0\<close> to \<open>width / scale\<close>, both included.\<close>

definition compress_row ::
  "Vec3f list \<Rightarrow> int \<Rightarrow> nat \<Rightarrow> Rectangle list \<Rightarrow> fault + Rectangle list" where
  "compress_row fb scale row drawn =
     (let startIdx = int row * width
      in case fb_read fb startIdx of
           Inl e \<Rightarrow> Inl e
         | Inr currentColor \<Rightarrow>
             (case for_loop [0..<nat (width sdiv scale + 1)] (compress_step fb scale startIdx)
                     (startIdx, currentColor, drawn) of
                Inl e \<Rightarrow> Inl e
              | Inr (startIdx, currentColor, drawn) \<Rightarrow> Inr drawn))"

definition compress :: "Vec3f list \<Rightarrow> int \<Rightarrow> fault + Rectangle list" where
  "compress fb scale = for_loop [0..<nat (height sdiv scale)] (compress_row fb scale) []"

text \<open>
  \<^verbatim>\<open>render\<close>: the framebuffer of \<^verbatim>\<open>(width * height) / scale\<close> value-initialised
  elements, the filling loops, the compressor.  The result is the list of rectangles
  drawn, or what stopped the function.
\<close>

definition render ::
  "nat \<Rightarrow> Sphere list \<Rightarrow> Light list \<Rightarrow> int \<Rightarrow> 32 word \<Rightarrow> fault + Rectangle list" where
  "render fuel spheres lights scale maxDepth =
     (if scale = 0 then Inl DivisionByZero
      else if (width * height) sdiv scale < 0 then Inl LengthError
      else
        case fill_framebuffer fuel spheres lights scale maxDepth
               (replicate (nat ((width * height) sdiv scale)) 0) of
          Inl e \<Rightarrow> Inl e
        | Inr framebuffer \<Rightarrow> compress framebuffer scale)"

text \<open>
  The two quality settings as \<^verbatim>\<open>main\<close> updates them once per frame from the keys
  pressed, before it calls \<^verbatim>\<open>render\<close>.
\<close>

definition update_scale :: "int \<Rightarrow> bool \<Rightarrow> bool \<Rightarrow> int" where
  "update_scale scale key_left key_right =
     (if scale > 1 \<and> key_left then scale sdiv 2
      else if scale < 16 \<and> key_right then scale * 2
      else scale)"

definition update_maxDepth :: "int \<Rightarrow> bool \<Rightarrow> bool \<Rightarrow> int" where
  "update_maxDepth maxDepth key_down key_up =
     (if maxDepth > 1 \<and> key_down then maxDepth - 1
      else if maxDepth < 4 \<and> key_up then maxDepth + 1
      else maxDepth)"

text \<open>
  The settings after a sequence of frames; a frame is the four keys
  \<open>(left, right, down, up)\<close> as \<^verbatim>\<open>IsKeyPressed\<close> reports them.  \<^verbatim>\<open>main\<close> starts
  from \<open>scale = 8\<close> and \<open>maxDepth = 4\<close>.
\<close>

fun run_frames :: "int \<times> int \<Rightarrow> (bool \<times> bool \<times> bool \<times> bool) list \<Rightarrow> int \<times> int" where
  "run_frames st [] = st"
| "run_frames (scale, maxDepth) ((key_left, key_right, key_down, key_up) # frames) =
     run_frames (update_scale scale key_left key_right, update_maxDepth maxDepth key_down key_up)
       frames"

section \<open>Properties of the vector operations\<close>



lemma norm_vec_nonneg: "0 \<le> norm_vec v"
  by (simp add: norm_vec_def)



section \<open>The ray-sphere test\<close>











section \<open>Refraction\<close>

text \<open>
  Total internal reflection: for a ray that leaves the medium (\<open>I * N > 0\<close>) with
  \<open>k < 0\<close>, \<^verbatim>\<open>refract\<close> returns the zero vector; for instance at a grazing exit from
  glass of index \<open>1.5\<close>.  What \<^verbatim>\<open>normalize\<close> and the recursive \<^verbatim>\<open>cast_ray\<close> then do
  with the zero vector depends on the division by zero and is outside this model.
\<close>

lemma refract_total_internal_reflection:
  assumes out: "0 < dot I N"
    and k: "1 - refr_index * refr_index * (1 - min 1 (dot I N) * min 1 (dot I N)) < 0"
  shows "refract I N refr_index = Vec3f 0 0 0"
proof -
  have c: "max (- 1) (min 1 (dot I N)) = min 1 (dot I N)" "0 < min 1 (dot I N)"
    using out by (simp_all add: max_def min_def)
  show ?thesis
    using k out c by (simp add: refract_def Let_def)
qed

lemma refract_grazing_exit:
  "refract (Vec3f 0.8 0.6 0) (Vec3f 0 1 0) 1.5 = Vec3f 0 0 0"
  by (simp add: refract_def dot_def Let_def)

section \<open>The terminal case of the recursion\<close>

lemma uint_scast_int:
  fixes maxDepth :: "32 word"
  shows "uint (scast maxDepth :: 64 word) = sint maxDepth mod 2 ^ 64"
proof -
  have "uint (word_of_int (sint maxDepth) :: 64 word) = take_bit 64 (sint maxDepth)"
    by (simp only: uint_word_of_int_eq) simp
  then show ?thesis by (simp only: scast_eq take_bit_eq_mod)
qed

lemma sint_32_bounds:
  fixes maxDepth :: "32 word"
  shows "- 2147483648 \<le> sint maxDepth" "sint maxDepth < 2147483648"
  using sint_ge[of maxDepth] sint_lt[of maxDepth] by simp_all

lemma depth_exceeded_nonneg:
  assumes "0 \<le> sint maxDepth"
  shows "depth_exceeded depth maxDepth \<longleftrightarrow> sint maxDepth < uint depth"
proof -
  have "sint maxDepth < 2 ^ 64" using sint_32_bounds(2)[of maxDepth] by simp
  then have "sint maxDepth mod 2 ^ 64 = sint maxDepth" using assms by (rule_tac mod_pos_pos_trivial)
  then show ?thesis by (simp only: depth_exceeded_def word_less_def uint_scast_int)
qed

lemma depth_exceeded_negative:
  assumes "sint maxDepth < 0"
  shows "depth_exceeded depth maxDepth \<longleftrightarrow> 2 ^ 64 + sint maxDepth < uint depth"
proof -
  have lo: "0 \<le> 2 ^ 64 + sint maxDepth" using sint_32_bounds(1)[of maxDepth] by simp
  have hi: "2 ^ 64 + sint maxDepth < 2 ^ 64" using assms by simp
  have "sint maxDepth mod 2 ^ 64 = (2 ^ 64 + sint maxDepth) mod 2 ^ 64"
    by (simp only: mod_add_self1)
  also have "\<dots> = 2 ^ 64 + sint maxDepth" using lo hi by (rule mod_pos_pos_trivial)
  finally show ?thesis by (simp only: depth_exceeded_def word_less_def uint_scast_int)
qed

lemma cast_ray_depth_exceeded:
  "depth_exceeded depth maxDepth \<Longrightarrow>
   cast_ray (Suc fuel) orig dir spheres lights depth maxDepth = Some background"
  by (subst cast_ray.simps(2)) (simp only: if_True)

lemma cast_ray_miss:
  assumes miss: "\<not> fst (scene_intersect orig dir spheres 0 0 default_material)"
  shows "cast_ray (Suc fuel) orig dir spheres lights depth maxDepth = Some background"
proof (cases "depth_exceeded depth maxDepth")
  case True
  then show ?thesis by (rule cast_ray_depth_exceeded)
next
  case False
  obtain found point N mat where
    "scene_intersect orig dir spheres 0 0 default_material = (found, point, N, mat)"
    by (cases "scene_intersect orig dir spheres 0 0 default_material") auto
  with miss have si: "scene_intersect orig dir spheres 0 0 default_material = (False, point, N, mat)"
    by simp
  show ?thesis
    apply (subst cast_ray.simps(2))
    apply (simp only: False si if_False)
    apply (simp only: prod.case)
    apply (simp only: simp_thms if_True)
    done
qed

lemma scene_intersect_no_spheres_level:
  "vec_y dir = 0 \<Longrightarrow> scene_intersect orig dir [] hit N mat = (False, hit, N, mat)"
  by (simp add: scene_intersect_def flt_max_def)

text \<open>
  C1.  For every origin, direction, scene and light list, \<^verbatim>\<open>cast_ray\<close> returns the
  background colour \<open>(0.2, 0.7, 0.8)\<close> when \<^verbatim>\<open>depth > maxDepth\<close> holds or
  \<^verbatim>\<open>scene_intersect\<close> reports no hit.  In the first case one activation suffices
  (fuel \<open>Suc 0\<close>): the call makes no recursive call.  The comparison is the program's,
  with \<^verbatim>\<open>maxDepth\<close> converted to \<^verbatim>\<open>size_t\<close>; for a \<^verbatim>\<open>maxDepth\<close> that is not negative
  it is the comparison of the two numbers.
\<close>

theorem cast_ray_background:
  "(depth_exceeded depth maxDepth \<longrightarrow>
      cast_ray (Suc 0) orig dir spheres lights depth maxDepth = Some (Vec3f 0.2 0.7 0.8)) \<and>
   (depth_exceeded depth maxDepth \<or>
    \<not> fst (scene_intersect orig dir spheres 0 0 default_material) \<longrightarrow>
      cast_ray (Suc fuel) orig dir spheres lights depth maxDepth = Some (Vec3f 0.2 0.7 0.8)) \<and>
   (0 \<le> sint maxDepth \<longrightarrow> depth_exceeded depth maxDepth = (sint maxDepth < uint depth))"
proof (intro conjI impI)
  assume "depth_exceeded depth maxDepth"
  then show "cast_ray (Suc 0) orig dir spheres lights depth maxDepth = Some (Vec3f 0.2 0.7 0.8)"
    unfolding background_def[symmetric] by (rule cast_ray_depth_exceeded)
next
  assume "depth_exceeded depth maxDepth \<or>
    \<not> fst (scene_intersect orig dir spheres 0 0 default_material)"
  then show "cast_ray (Suc fuel) orig dir spheres lights depth maxDepth = Some (Vec3f 0.2 0.7 0.8)"
    unfolding background_def[symmetric]
    using cast_ray_depth_exceeded cast_ray_miss by blast
next
  assume "0 \<le> sint maxDepth"
  then show "depth_exceeded depth maxDepth = (sint maxDepth < uint depth)"
    by (rule depth_exceeded_nonneg)
qed

theorem cast_ray_background_witness:
  "depth_exceeded 5 4 \<and>
   cast_ray (Suc 0) (Vec3f 0 0 0) (Vec3f 0 0 (- 1)) [] [] 5 4 = Some (Vec3f 0.2 0.7 0.8) \<and>
   \<not> fst (scene_intersect (Vec3f 0 0 0) (Vec3f 0 0 (- 1)) [] 0 0 default_material) \<and>
   cast_ray (Suc 3) (Vec3f 0 0 0) (Vec3f 0 0 (- 1)) [] [] 0 4 = Some (Vec3f 0.2 0.7 0.8) \<and>
   (0::int) \<le> sint (4 :: 32 word) \<and> sint (4 :: 32 word) < uint (5 :: 64 word)"
proof -
  have d: "depth_exceeded 5 4"
    by (simp add: depth_exceeded_def)
  have m: "\<not> fst (scene_intersect (Vec3f 0 0 0) (Vec3f 0 0 (- 1)) [] 0 0 default_material)"
    by (simp add: scene_intersect_no_spheres_level)
  have s: "(0::int) \<le> sint (4 :: 32 word)" by simp
  show ?thesis
    using d m s
      cast_ray_background[of 5 4 "Vec3f 0 0 0" "Vec3f 0 0 (- 1)" "[]" "[]" 0]
      cast_ray_background[of 0 4 "Vec3f 0 0 0" "Vec3f 0 0 (- 1)" "[]" "[]" 3]
    by simp
qed

section \<open>The scene-wide query\<close>

lemma scene_intersect_plane:
  assumes sl: "spheres_loop orig dir spheres (flt_max, hit, N, mat) = (sd, hit', N', mat')"
    and pa: "plane_accepted orig dir sd"
  shows "scene_intersect orig dir spheres hit N mat =
           (min sd (- (vec_y orig + 4) / vec_y dir) < 1000, plane_point orig dir, Vec3f 0 1 0,
            mat'\<lparr>diffuse_color := scale_vec (checkerboard_color (plane_point orig dir)) 0.3\<rparr>)"
proof -
  from pa have c1: "\<bar>vec_y dir\<bar> > 1 / 1000"
    and c2: "- (vec_y orig + 4) / vec_y dir > 0 \<and>
       \<bar>vec_x (plane_point orig dir)\<bar> < 10 \<and> vec_z (plane_point orig dir) < - 10 \<and>
       vec_z (plane_point orig dir) > - 30 \<and> - (vec_y orig + 4) / vec_y dir < sd"
    unfolding plane_accepted_def by blast+
  show ?thesis
    unfolding scene_intersect_def sl prod.case Let_def plane_point_def[symmetric]
    by (simp only: c1 c2 simp_thms if_True prod.case)
qed

lemma scene_intersect_no_plane:
  assumes sl: "spheres_loop orig dir spheres (flt_max, hit, N, mat) = (sd, hit', N', mat')"
    and pa: "\<not> plane_accepted orig dir sd"
  shows "scene_intersect orig dir spheres hit N mat = (min sd flt_max < 1000, hit', N', mat')"
proof (cases "\<bar>vec_y dir\<bar> > 1 / 1000")
  case True
  with pa have c2: "\<not> (- (vec_y orig + 4) / vec_y dir > 0 \<and>
       \<bar>vec_x (plane_point orig dir)\<bar> < 10 \<and> vec_z (plane_point orig dir) < - 10 \<and>
       vec_z (plane_point orig dir) > - 30 \<and> - (vec_y orig + 4) / vec_y dir < sd)"
    unfolding plane_accepted_def by blast
  show ?thesis
    unfolding scene_intersect_def sl prod.case Let_def plane_point_def[symmetric]
    by (simp only: True c2 simp_thms if_True if_False prod.case)
next
  case False
  show ?thesis
    unfolding scene_intersect_def sl prod.case Let_def plane_point_def[symmetric]
    by (simp only: False simp_thms if_False prod.case)
qed

lemma spheres_loop_Cons_record:
  "ray_intersect s orig dir = Some d \<Longrightarrow> d < sd0 \<Longrightarrow>
   spheres_loop orig dir (s # ss) (sd0, h0, n0, m0) =
   spheres_loop orig dir ss
     (d, orig + scale_vec dir d, normalize_vec (orig + scale_vec dir d - center s), material s)"
  by (simp only: spheres_loop.simps option.case if_True Let_def)

lemma spheres_loop_Cons_skip:
  "\<not> (\<exists>d. ray_intersect s orig dir = Some d \<and> d < sd0) \<Longrightarrow>
   spheres_loop orig dir (s # ss) (sd0, h0, n0, m0) = spheres_loop orig dir ss (sd0, h0, n0, m0)"
  by (cases "ray_intersect s orig dir") (simp_all only: spheres_loop.simps option.case simp_thms if_False option.inject)

lemma spheres_loop_result:
  "spheres_loop orig dir ss (sd0, h0, n0, m0) = (sd, h, n, m) \<Longrightarrow>
     ((\<forall>s\<in>set ss. \<forall>d. ray_intersect s orig dir = Some d \<longrightarrow> \<not> d < sd0) \<and>
      (sd, h, n, m) = (sd0, h0, n0, m0)) \<or>
     (\<exists>s. nearest_hit orig dir ss s sd \<and> sd < sd0 \<and>
        h = orig + scale_vec dir sd \<and> n = normalize_vec (h - center s) \<and> m = material s)"
proof (induction ss arbitrary: sd0 h0 n0 m0)
  case Nil
  then show ?case by simp
next
  case (Cons s ss)
  show ?case
  proof (cases "\<exists>d. ray_intersect s orig dir = Some d \<and> d < sd0")
    case True
    then obtain d where d: "ray_intersect s orig dir = Some d" "d < sd0" by blast
    have "spheres_loop orig dir ss
        (d, orig + scale_vec dir d, normalize_vec (orig + scale_vec dir d - center s), material s) =
        (sd, h, n, m)"
      using Cons.prems spheres_loop_Cons_record[OF d] by simp
    from Cons.IH[OF this] show ?thesis
    proof
      assume a: "(\<forall>s\<in>set ss. \<forall>d'. ray_intersect s orig dir = Some d' \<longrightarrow> \<not> d' < d) \<and>
        (sd, h, n, m) =
        (d, orig + scale_vec dir d, normalize_vec (orig + scale_vec dir d - center s), material s)"
      then have "nearest_hit orig dir (s # ss) s sd"
        unfolding nearest_hit_def using d(1) by (auto simp: not_less)
      with a d(2) show ?thesis by auto
    next
      assume "\<exists>s'. nearest_hit orig dir ss s' sd \<and> sd < d \<and>
        h = orig + scale_vec dir sd \<and> n = normalize_vec (h - center s') \<and> m = material s'"
      then obtain s' where s': "nearest_hit orig dir ss s' sd" "sd < d"
        "h = orig + scale_vec dir sd" "n = normalize_vec (h - center s')" "m = material s'"
        by blast
      have "nearest_hit orig dir (s # ss) s' sd"
        using s'(1,2) d(1) unfolding nearest_hit_def by auto
      with s' d(2) show ?thesis by (intro disjI2 exI[of _ s']) simp
    qed
  next
    case False
    have "spheres_loop orig dir ss (sd0, h0, n0, m0) = (sd, h, n, m)"
      using Cons.prems spheres_loop_Cons_skip[OF False] by simp
    from Cons.IH[OF this] show ?thesis
    proof
      assume a: "(\<forall>s\<in>set ss. \<forall>d. ray_intersect s orig dir = Some d \<longrightarrow> \<not> d < sd0) \<and>
        (sd, h, n, m) = (sd0, h0, n0, m0)"
      with False show ?thesis by (intro disjI1) auto
    next
      assume "\<exists>s'. nearest_hit orig dir ss s' sd \<and> sd < sd0 \<and>
        h = orig + scale_vec dir sd \<and> n = normalize_vec (h - center s') \<and> m = material s'"
      then obtain s' where s': "nearest_hit orig dir ss s' sd" "sd < sd0"
        "h = orig + scale_vec dir sd" "n = normalize_vec (h - center s')" "m = material s'"
        by blast
      have "\<And>d'. ray_intersect s orig dir = Some d' \<Longrightarrow> sd \<le> d'"
        using False s'(2) by (meson less_le_trans not_less less_imp_le)
      then have "nearest_hit orig dir (s # ss) s' sd"
        using s'(1) unfolding nearest_hit_def by auto
      with s' show ?thesis by (intro disjI2 exI[of _ s']) simp
    qed
  qed
qed

text \<open>
  C10.  When the plane is accepted (it is met strictly nearer than every sphere),
  \<^verbatim>\<open>scene_intersect\<close> returns a material whose diffuse colour is the dimmed
  checkerboard colour of the plane point; if some sphere was recorded by the loop over
  the spheres, the refractive index, albedo and specular exponent returned are those of
  a nearest sphere met by the ray, which is farther than the plane; only if no sphere
  was recorded are they the values the caller passed in (in \<^verbatim>\<open>cast_ray\<close> the default
  material: refractive index \<open>1\<close>, albedo \<open>(1, 0, 0, 0)\<close>, exponent \<open>0\<close>).
\<close>

theorem plane_hit_keeps_sphere_material:
  assumes "plane_accepted orig dir (fst (spheres_loop orig dir spheres (flt_max, hit, N, mat)))"
  shows "case scene_intersect orig dir spheres hit N mat of
           (found, p, n, m) \<Rightarrow>
             diffuse_color m = scale_vec (checkerboard_color (plane_point orig dir)) 0.3 \<and>
             (if \<exists>s\<in>set spheres. \<exists>d. ray_intersect s orig dir = Some d \<and> d < flt_max
              then \<exists>s. nearest_hit orig dir spheres s
                          (fst (spheres_loop orig dir spheres (flt_max, hit, N, mat))) \<and>
                        - (vec_y orig + 4) / vec_y dir <
                          fst (spheres_loop orig dir spheres (flt_max, hit, N, mat)) \<and>
                        refractive_index m = refractive_index (material s) \<and>
                        albedo m = albedo (material s) \<and>
                        specular_exponent m = specular_exponent (material s)
              else refractive_index m = refractive_index mat \<and> albedo m = albedo mat \<and>
                   specular_exponent m = specular_exponent mat)"
proof -
  obtain sd hit' N' mat' where
    sl: "spheres_loop orig dir spheres (flt_max, hit, N, mat) = (sd, hit', N', mat')"
    by (cases "spheres_loop orig dir spheres (flt_max, hit, N, mat)") auto
  with assms have pa: "plane_accepted orig dir sd" by simp
  have near: "- (vec_y orig + 4) / vec_y dir < sd"
    using pa unfolding plane_accepted_def by blast
  note si = scene_intersect_plane[OF sl pa]
  from spheres_loop_result[OF sl] show ?thesis
  proof
    assume a: "(\<forall>s\<in>set spheres. \<forall>d. ray_intersect s orig dir = Some d \<longrightarrow> \<not> d < flt_max) \<and>
      (sd, hit', N', mat') = (flt_max, hit, N, mat)"
    then have "\<not> (\<exists>s\<in>set spheres. \<exists>d. ray_intersect s orig dir = Some d \<and> d < flt_max)"
      by blast
    moreover from a have "mat' = mat" by simp
    ultimately show ?thesis unfolding si sl by simp blast
  next
    assume "\<exists>s. nearest_hit orig dir spheres s sd \<and> sd < flt_max \<and>
      hit' = orig + scale_vec dir sd \<and> N' = normalize_vec (hit' - center s) \<and> mat' = material s"
    then obtain s where s: "nearest_hit orig dir spheres s sd" "sd < flt_max" "mat' = material s"
      by blast
    then have "\<exists>s\<in>set spheres. \<exists>d. ray_intersect s orig dir = Some d \<and> d < flt_max"
      unfolding nearest_hit_def by blast
    moreover have "\<exists>s. nearest_hit orig dir spheres s sd \<and> - (vec_y orig + 4) / vec_y dir < sd \<and>
        refractive_index mat' = refractive_index (material s) \<and>
        albedo mat' = albedo (material s) \<and>
        specular_exponent mat' = specular_exponent (material s)"
      using s near by blast
    ultimately show ?thesis unfolding si sl by simp
  qed
qed

theorem plane_hit_keeps_sphere_material_witness:
  "plane_accepted (Vec3f 0 0 (- 20)) (Vec3f 0 (- 1) 0)
     (fst (spheres_loop (Vec3f 0 0 (- 20)) (Vec3f 0 (- 1) 0)
        [\<lparr>center = Vec3f 0 (- 10) (- 20), radius = 2,
          material = \<lparr>refractive_index = 1.5, albedo = Vec4f 0 0.5 0.1 0.8,
                       diffuse_color = Vec3f 0.6 0.7 0.8, specular_exponent = 125\<rparr>\<rparr>]
        (flt_max, 0, 0, default_material))) \<and>
   (case scene_intersect (Vec3f 0 0 (- 20)) (Vec3f 0 (- 1) 0)
        [\<lparr>center = Vec3f 0 (- 10) (- 20), radius = 2,
          material = \<lparr>refractive_index = 1.5, albedo = Vec4f 0 0.5 0.1 0.8,
                       diffuse_color = Vec3f 0.6 0.7 0.8, specular_exponent = 125\<rparr>\<rparr>]
        0 0 default_material of
      (found, p, n, m) \<Rightarrow>
        diffuse_color m = Vec3f 0.3 0.21 0.09 \<and> refractive_index m = 1.5 \<and>
        albedo m = Vec4f 0 0.5 0.1 0.8 \<and> specular_exponent m = 125)"
proof -
  let ?O = "Vec3f 0 0 (- 20)" and ?D = "Vec3f 0 (- 1) 0"
  let ?glass = "\<lparr>refractive_index = 1.5, albedo = Vec4f 0 0.5 0.1 0.8,
                       diffuse_color = Vec3f 0.6 0.7 0.8, specular_exponent = 125\<rparr>"
  let ?S = "\<lparr>center = Vec3f 0 (- 10) (- 20), radius = 2, material = ?glass\<rparr>"
  have ri: "ray_intersect ?S ?O ?D = Some 8"
    by (simp add: ray_intersect_def dot_def minus_Vec3f_def Let_def)
  have fm: "(8::real) < flt_max" by (simp add: flt_max_def)
  have sd: "fst (spheres_loop ?O ?D [?S] (flt_max, 0, 0, default_material)) = 8"
    by (simp only: spheres_loop.simps ri option.case fm if_True Let_def fst_conv)
  have pp: "plane_point ?O ?D = Vec3f 0 (- 4) (- 20)"
    by (simp add: plane_point_def plus_Vec3f_def scale_vec_def)
  have pa: "plane_accepted ?O ?D (fst (spheres_loop ?O ?D [?S] (flt_max, 0, 0, default_material)))"
    unfolding sd by (simp add: plane_accepted_def pp)
  have cc: "scale_vec (checkerboard_color (Vec3f 0 (- 4) (- 20))) 0.3 = Vec3f 0.3 0.21 0.09"
    by (simp add: checkerboard_color_def int_of_float_def scale_vec_def and_one_eq)
  have nh: "\<And>s d. nearest_hit ?O ?D [?S] s d \<Longrightarrow> s = ?S"
    by (simp add: nearest_hit_def)
  obtain found p n m where
    si: "scene_intersect ?O ?D [?S] 0 0 default_material = (found, p, n, m)"
    by (cases "scene_intersect ?O ?D [?S] 0 0 default_material") auto
  have ex: "\<exists>s\<in>set [?S]. \<exists>d. ray_intersect s ?O ?D = Some d \<and> d < flt_max"
    using ri fm by simp
  from plane_hit_keeps_sphere_material[OF pa]
  have "diffuse_color m = scale_vec (checkerboard_color (plane_point ?O ?D)) 0.3 \<and>
        (\<exists>s. nearest_hit ?O ?D [?S] s
                (fst (spheres_loop ?O ?D [?S] (flt_max, 0, 0, default_material))) \<and>
              - (vec_y ?O + 4) / vec_y ?D <
                fst (spheres_loop ?O ?D [?S] (flt_max, 0, 0, default_material)) \<and>
              refractive_index m = refractive_index (material s) \<and>
              albedo m = albedo (material s) \<and>
              specular_exponent m = specular_exponent (material s))"
    by (simp only: si prod.case ex if_True)
  then obtain s where dc: "diffuse_color m = scale_vec (checkerboard_color (plane_point ?O ?D)) 0.3"
    and s: "nearest_hit ?O ?D [?S] s (fst (spheres_loop ?O ?D [?S] (flt_max, 0, 0, default_material)))"
      "refractive_index m = refractive_index (material s)"
      "albedo m = albedo (material s)"
      "specular_exponent m = specular_exponent (material s)"
    by blast
  from nh[OF s(1)] have "s = ?S" .
  with s dc have "diffuse_color m = Vec3f 0.3 0.21 0.09 \<and> refractive_index m = 1.5 \<and>
        albedo m = Vec4f 0 0.5 0.1 0.8 \<and> specular_exponent m = 125"
    by (simp add: pp cc)
  with pa show ?thesis by (simp only: si prod.case simp_thms)
qed

section \<open>The checkerboard\<close>

lemma checkerboard_color_parity:
  "checkerboard_color p =
     (if odd (int_of_float (0.5 * vec_x p + 1000) + int_of_float (0.5 * vec_z p))
      then Vec3f 1 1 1 else Vec3f 1 0.7 0.3)"
  by (simp only: checkerboard_color_def and_one_eq odd_iff_mod_2_eq_one) (simp add: mod2_eq_if)

lemma scene_intersect_level_plane:
  "scene_intersect (Vec3f a 0 (- 20)) (Vec3f 0 (- 1) 0) [] 0 0 default_material =
     (True, Vec3f a (- 4) (- 20), Vec3f 0 1 0,
      default_material\<lparr>diffuse_color := scale_vec (checkerboard_color (Vec3f a (- 4) (- 20))) 0.3\<rparr>)"
  if "\<bar>a\<bar> < 10" for a
proof -
  have sl: "spheres_loop (Vec3f a 0 (- 20)) (Vec3f 0 (- 1) 0) [] (flt_max, 0, 0, default_material) =
      (flt_max, 0, 0, default_material)" by simp
  have pp: "plane_point (Vec3f a 0 (- 20)) (Vec3f 0 (- 1) 0) = Vec3f a (- 4) (- 20)"
    by (simp add: plane_point_def plus_Vec3f_def scale_vec_def)
  have pa: "plane_accepted (Vec3f a 0 (- 20)) (Vec3f 0 (- 1) 0) flt_max"
    using that by (simp add: plane_accepted_def pp flt_max_def)
  show ?thesis
    using scene_intersect_plane[OF sl pa] by (simp add: pp flt_max_def)
qed

text \<open>
  C5, the claim as stated fails.  The claim gives the light tile colour to even parity
  of \<open>floor(0.5 x + 1000) + floor(0.5 z)\<close>.  The ray from \<open>(0, 0, -20)\<close> straight
  down meets the plane at \<open>(0, -4, -20)\<close>, where that sum is even, and the colour
  returned is \<open>0.3 * (1, 0.7, 0.3)\<close>; from \<open>(2, 0, -20)\<close> the sum is odd and the colour
  is \<open>0.3 * (1, 1, 1)\<close>.  The first colour is the darker one: its channels are at
  most those of the second, and two are smaller.  Moreover the program does not take
  the floor: its conversion to \<^verbatim>\<open>int\<close> gives \<open>-10\<close> for \<open>0.5 * (-21)\<close>, whose floor
  is \<open>-11\<close>.
\<close>

theorem checkerboard_even_is_dark:
  "(case scene_intersect (Vec3f 0 0 (- 20)) (Vec3f 0 (- 1) 0) [] 0 0 default_material of
      (found, p, n, m) \<Rightarrow>
        found \<and> p = Vec3f 0 (- 4) (- 20) \<and>
        even (\<lfloor>0.5 * vec_x p + 1000 :: real\<rfloor> + \<lfloor>0.5 * vec_z p\<rfloor>) \<and>
        diffuse_color m = scale_vec (Vec3f 1 0.7 0.3) 0.3) \<and>
   (case scene_intersect (Vec3f 2 0 (- 20)) (Vec3f 0 (- 1) 0) [] 0 0 default_material of
      (found, p, n, m) \<Rightarrow>
        found \<and> p = Vec3f 2 (- 4) (- 20) \<and>
        odd (\<lfloor>0.5 * vec_x p + 1000 :: real\<rfloor> + \<lfloor>0.5 * vec_z p\<rfloor>) \<and>
        diffuse_color m = scale_vec (Vec3f 1 1 1) 0.3) \<and>
   at3 (scale_vec (Vec3f 1 0.7 0.3) 0.3) 0 = at3 (scale_vec (Vec3f 1 1 1) 0.3) 0 \<and>
   at3 (scale_vec (Vec3f 1 0.7 0.3) 0.3) 1 < at3 (scale_vec (Vec3f 1 1 1) 0.3) 1 \<and>
   at3 (scale_vec (Vec3f 1 0.7 0.3) 0.3) 2 < at3 (scale_vec (Vec3f 1 1 1) 0.3) 2 \<and>
   int_of_float (0.5 * (- 21)) = - 10 \<and> \<lfloor>0.5 * (- 21) :: real\<rfloor> = - 11"
proof -
  have d: "at3 (scale_vec (Vec3f 1 0.7 0.3) 0.3) 0 = at3 (scale_vec (Vec3f 1 1 1) 0.3) 0"
    "at3 (scale_vec (Vec3f 1 0.7 0.3) 0.3) 1 < at3 (scale_vec (Vec3f 1 1 1) 0.3) 1"
    "at3 (scale_vec (Vec3f 1 0.7 0.3) 0.3) 2 < at3 (scale_vec (Vec3f 1 1 1) 0.3) 2"
    by (simp_all add: scale_vec_def)
  have f: "\<lfloor>1000 :: real\<rfloor> = 1000" "\<lfloor>1001 :: real\<rfloor> = 1001" "\<lfloor>- 10 :: real\<rfloor> = - 10"
    by simp_all
  have c0: "checkerboard_color (Vec3f 0 (- 4) (- 20)) = Vec3f 1 0.7 0.3"
    by (simp add: checkerboard_color_parity int_of_float_def)
  have c2: "checkerboard_color (Vec3f 2 (- 4) (- 20)) = Vec3f 1 1 1"
    by (simp add: checkerboard_color_parity int_of_float_def)
  have t: "int_of_float (0.5 * (- 21)) = - 10" "\<lfloor>0.5 * (- 21) :: real\<rfloor> = - 11"
    by (simp_all add: int_of_float_def)
  have p0: "case scene_intersect (Vec3f 0 0 (- 20)) (Vec3f 0 (- 1) 0) [] 0 0 default_material of
      (found, p, n, m) \<Rightarrow>
        found \<and> p = Vec3f 0 (- 4) (- 20) \<and>
        even (\<lfloor>0.5 * vec_x p + 1000 :: real\<rfloor> + \<lfloor>0.5 * vec_z p\<rfloor>) \<and>
        diffuse_color m = scale_vec (Vec3f 1 0.7 0.3) 0.3"
    by (simp add: scene_intersect_level_plane c0 f)
  have p2: "case scene_intersect (Vec3f 2 0 (- 20)) (Vec3f 0 (- 1) 0) [] 0 0 default_material of
      (found, p, n, m) \<Rightarrow>
        found \<and> p = Vec3f 2 (- 4) (- 20) \<and>
        odd (\<lfloor>0.5 * vec_x p + 1000 :: real\<rfloor> + \<lfloor>0.5 * vec_z p\<rfloor>) \<and>
        diffuse_color m = scale_vec (Vec3f 1 1 1) 0.3"
    by (simp add: scene_intersect_level_plane c2 f)
  from p0 p2 d t show ?thesis by (intro conjI)
qed

text \<open>
  C5, amended.  For every plane hit the diffuse colour returned is \<open>0.3\<close> times the
  tile colour chosen by the parity of \<open>int(0.5 x + 1000) + int(0.5 z)\<close>, where
  \<^verbatim>\<open>int\<close> discards the fractional part; on the plane's region that is
  \<open>floor(0.5 x + 1000) + ceiling(0.5 z)\<close>.  Odd parity gives \<open>(1, 1, 1)\<close>, even parity
  gives \<open>(1, 0.7, 0.3)\<close>.  At the points \<open>x = 0, z = -20\<close> and \<open>x = 2, z = -20\<close> the two
  tile colours alternate.
\<close>

theorem checkerboard_parity:
  assumes "plane_accepted orig dir (fst (spheres_loop orig dir spheres (flt_max, hit, N, mat)))"
  shows "(case scene_intersect orig dir spheres hit N mat of
           (found, p, n, m) \<Rightarrow>
             p = plane_point orig dir \<and>
             int_of_float (0.5 * vec_x p + 1000) = \<lfloor>0.5 * vec_x p + 1000\<rfloor> \<and>
             int_of_float (0.5 * vec_z p) = \<lceil>0.5 * vec_z p\<rceil> \<and>
             diffuse_color m =
               scale_vec
                 (if odd (int_of_float (0.5 * vec_x p + 1000) + int_of_float (0.5 * vec_z p))
                  then Vec3f 1 1 1 else Vec3f 1 0.7 0.3) 0.3) \<and>
         checkerboard_color (Vec3f 0 (- 4) (- 20)) = Vec3f 1 0.7 0.3 \<and>
         checkerboard_color (Vec3f 2 (- 4) (- 20)) = Vec3f 1 1 1"
proof -
  obtain sd hit' N' mat' where
    sl: "spheres_loop orig dir spheres (flt_max, hit, N, mat) = (sd, hit', N', mat')"
    by (cases "spheres_loop orig dir spheres (flt_max, hit, N, mat)") auto
  with assms have pa: "plane_accepted orig dir sd" by simp
  then have x: "\<bar>vec_x (plane_point orig dir)\<bar> < 10" and z: "vec_z (plane_point orig dir) < - 10"
    unfolding plane_accepted_def by blast+
  have fx: "int_of_float (0.5 * vec_x (plane_point orig dir) + 1000) =
      \<lfloor>0.5 * vec_x (plane_point orig dir) + 1000\<rfloor>"
  proof -
    have "0 \<le> 0.5 * vec_x (plane_point orig dir) + 1000" using x by linarith
    then show ?thesis by (simp only: int_of_float_def if_True)
  qed
  have fz: "int_of_float (0.5 * vec_z (plane_point orig dir)) = \<lceil>0.5 * vec_z (plane_point orig dir)\<rceil>"
  proof -
    have "\<not> 0 \<le> 0.5 * vec_z (plane_point orig dir)" using z by linarith
    then show ?thesis by (simp only: int_of_float_def if_False)
  qed
  have c0: "checkerboard_color (Vec3f 0 (- 4) (- 20)) = Vec3f 1 0.7 0.3"
    by (simp add: checkerboard_color_parity int_of_float_def)
  have c2: "checkerboard_color (Vec3f 2 (- 4) (- 20)) = Vec3f 1 1 1"
    by (simp add: checkerboard_color_parity int_of_float_def)
  have "case scene_intersect orig dir spheres hit N mat of
           (found, p, n, m) \<Rightarrow>
             p = plane_point orig dir \<and>
             int_of_float (0.5 * vec_x p + 1000) = \<lfloor>0.5 * vec_x p + 1000\<rfloor> \<and>
             int_of_float (0.5 * vec_z p) = \<lceil>0.5 * vec_z p\<rceil> \<and>
             diffuse_color m =
               scale_vec
                 (if odd (int_of_float (0.5 * vec_x p + 1000) + int_of_float (0.5 * vec_z p))
                  then Vec3f 1 1 1 else Vec3f 1 0.7 0.3) 0.3"
    unfolding scene_intersect_plane[OF sl pa] prod.case
    using fx fz by (simp add: checkerboard_color_parity)
  with c0 c2 show ?thesis by (intro conjI)
qed

theorem checkerboard_parity_witness:
  "plane_accepted (Vec3f 2 0 (- 20)) (Vec3f 0 (- 1) 0)
     (fst (spheres_loop (Vec3f 2 0 (- 20)) (Vec3f 0 (- 1) 0) [] (flt_max, 0, 0, default_material))) \<and>
   (case scene_intersect (Vec3f 2 0 (- 20)) (Vec3f 0 (- 1) 0) [] 0 0 default_material of
      (found, p, n, m) \<Rightarrow> p = Vec3f 2 (- 4) (- 20) \<and> diffuse_color m = Vec3f 0.3 0.3 0.3)"
proof -
  let ?O = "Vec3f 2 0 (- 20)" and ?D = "Vec3f 0 (- 1) 0"
  have pp: "plane_point ?O ?D = Vec3f 2 (- 4) (- 20)"
    by (simp add: plane_point_def plus_Vec3f_def scale_vec_def)
  have pa: "plane_accepted ?O ?D (fst (spheres_loop ?O ?D [] (flt_max, 0, 0, default_material)))"
    by (simp add: plane_accepted_def pp flt_max_def)
  obtain found p n m where
    si: "scene_intersect ?O ?D [] 0 0 default_material = (found, p, n, m)"
    by (cases "scene_intersect ?O ?D [] 0 0 default_material") auto
  from checkerboard_parity[OF pa]
  have "p = plane_point ?O ?D \<and>
        diffuse_color m =
          scale_vec
            (if odd (int_of_float (0.5 * vec_x p + 1000) + int_of_float (0.5 * vec_z p))
             then Vec3f 1 1 1 else Vec3f 1 0.7 0.3) 0.3"
    by (simp only: si prod.case)
  then have "p = Vec3f 2 (- 4) (- 20) \<and> diffuse_color m = Vec3f 0.3 0.3 0.3"
    by (simp add: pp int_of_float_def scale_vec_def)
  with pa show ?thesis by (simp only: si prod.case simp_thms)
qed

section \<open>Direct lighting and shadows\<close>

lemma lights_loop_Cons:
  "lights_loop spheres dir point N mat (l # ls) (diffuse, specular) =
     lights_loop spheres dir point N mat ls
       (if in_shadow spheres point N l then (diffuse, specular)
        else (diffuse + diffuse_term point N l, specular + specular_term dir point N mat l))"
  by (simp only: lights_loop.simps Let_def diffuse_term_def specular_term_def)

lemma lights_loop_sums:
  "lights_loop spheres dir point N mat ls (diffuse, specular) =
     (diffuse + sum_list (map (diffuse_term point N)
                  (filter (\<lambda>l. \<not> in_shadow spheres point N l) ls)),
      specular + sum_list (map (specular_term dir point N mat)
                  (filter (\<lambda>l. \<not> in_shadow spheres point N l) ls)))"
proof (induction ls arbitrary: diffuse specular)
  case Nil
  show ?case by simp
next
  case (Cons l ls)
  show ?case
    by (cases "in_shadow spheres point N l")
       (simp_all only: lights_loop_Cons Cons.IH if_True if_False filter.simps list.map
          sum_list.Cons add.assoc not_True_eq_False not_False_eq_True)
qed

lemma norm_vec_axis_y: "norm_vec (Vec3f 0 a 0) = \<bar>a\<bar>"
  by (simp add: norm_vec_def)

lemma axis_light_dir:
  "0 < a \<Longrightarrow> normalize_vec (Vec3f 0 a 0 - Vec3f 0 0 0) = Vec3f 0 1 0"
  by (simp add: normalize_vec_def minus_Vec3f_def norm_vec_axis_y scale_vec_def)

lemma axis_shadow_ray:
  assumes "1 + 1 / 1000 < c" "c < 1000"
  shows "scene_intersect (Vec3f 0 (1 / 1000) 0) (Vec3f 0 1 0)
           [\<lparr>center = Vec3f 0 c 0, radius = 1, material = default_material\<rparr>] 0 0 default_material =
         (True, Vec3f 0 (c - 1) 0, Vec3f 0 (- 1) 0, default_material)"
proof -
  let ?S = "\<lparr>center = Vec3f 0 c 0, radius = 1, material = default_material\<rparr>"
  let ?O = "Vec3f 0 (1 / 1000) 0" and ?D = "Vec3f 0 1 0"
  have ri: "ray_intersect ?S ?O ?D = Some (c - 1 - 1 / 1000)"
    using assms by (simp add: ray_intersect_def dot_def minus_Vec3f_def Let_def algebra_simps)
  have fm: "c - 1 - 1 / 1000 < flt_max" using assms by (simp add: flt_max_def)
  have h: "?O + scale_vec ?D (c - 1 - 1 / 1000) = Vec3f 0 (c - 1) 0"
    by (simp add: plus_Vec3f_def scale_vec_def)
  have n: "normalize_vec (Vec3f 0 (c - 1) 0 - Vec3f 0 c 0) = Vec3f 0 (- 1) 0"
    by (simp add: normalize_vec_def minus_Vec3f_def norm_vec_axis_y scale_vec_def)
  have sl: "spheres_loop ?O ?D [?S] (flt_max, 0, 0, default_material) =
      (c - 1 - 1 / 1000, Vec3f 0 (c - 1) 0, Vec3f 0 (- 1) 0, default_material)"
    by (simp only: spheres_loop.simps ri option.case fm if_True Let_def h n Sphere.simps)
  have pa: "\<not> plane_accepted ?O ?D (c - 1 - 1 / 1000)"
    by (simp add: plane_accepted_def)
  have "min (c - 1 - 1 / 1000) flt_max < 1000" using assms fm by simp
  then show ?thesis using scene_intersect_no_plane[OF sl pa] by simp
qed

text \<open>
  C4.  The loop over the lights adds, for each light, its diffuse and its specular
  term, except for the lights in shadow, for which it adds nothing: the two
  intensities are the sums of the terms of the lights that are not in shadow.  A light
  is in shadow exactly when the shadow ray, from the origin moved off the surface by
  \<open>0.001\<close> along the normal toward the light, meets the scene at a distance strictly
  less than the distance of the light; a light at the same distance as the occluder's
  hit is not in shadow.  The occluder's material and normal do not enter the sums.
\<close>

theorem shadow_test:
  "lights_loop spheres dir point N mat lights (0, 0) =
     (sum_list (map (diffuse_term point N)
        (filter (\<lambda>l. \<not> in_shadow spheres point N l) lights)),
      sum_list (map (specular_term dir point N mat)
        (filter (\<lambda>l. \<not> in_shadow spheres point N l) lights))) \<and>
   in_shadow spheres point N l =
     (case scene_intersect (offset_orig (normalize_vec (position l - point)) point N)
             (normalize_vec (position l - point)) spheres 0 0 default_material of
        (occluder, shadow_pt, shadow_N, tmpmaterial) \<Rightarrow>
          occluder \<and>
          norm_vec (shadow_pt - offset_orig (normalize_vec (position l - point)) point N) <
            norm_vec (position l - point)) \<and>
   (in_shadow spheres point N l \<longrightarrow>
      lights_loop spheres dir point N mat (l # ls) (diffuse, specular) =
      lights_loop spheres dir point N mat ls (diffuse, specular)) \<and>
   (\<not> in_shadow spheres point N l \<longrightarrow>
      lights_loop spheres dir point N mat (l # ls) (diffuse, specular) =
      lights_loop spheres dir point N mat ls
        (diffuse + diffuse_term point N l, specular + specular_term dir point N mat l)) \<and>
   ((case scene_intersect (offset_orig (normalize_vec (position l - point)) point N)
             (normalize_vec (position l - point)) spheres 0 0 default_material of
        (occluder, shadow_pt, shadow_N, tmpmaterial) \<Rightarrow>
          norm_vec (shadow_pt - offset_orig (normalize_vec (position l - point)) point N) =
            norm_vec (position l - point)) \<longrightarrow>
      \<not> in_shadow spheres point N l)"
proof (intro conjI impI)
  show "lights_loop spheres dir point N mat lights (0, 0) =
     (sum_list (map (diffuse_term point N)
        (filter (\<lambda>l. \<not> in_shadow spheres point N l) lights)),
      sum_list (map (specular_term dir point N mat)
        (filter (\<lambda>l. \<not> in_shadow spheres point N l) lights)))"
    by (simp only: lights_loop_sums add_0_left)
next
  show "in_shadow spheres point N l =
     (case scene_intersect (offset_orig (normalize_vec (position l - point)) point N)
             (normalize_vec (position l - point)) spheres 0 0 default_material of
        (occluder, shadow_pt, shadow_N, tmpmaterial) \<Rightarrow>
          occluder \<and>
          norm_vec (shadow_pt - offset_orig (normalize_vec (position l - point)) point N) <
            norm_vec (position l - point))"
    by (simp only: in_shadow_def Let_def)
next
  assume "in_shadow spheres point N l"
  then show "lights_loop spheres dir point N mat (l # ls) (diffuse, specular) =
      lights_loop spheres dir point N mat ls (diffuse, specular)"
    by (simp only: lights_loop_Cons if_True)
next
  assume "\<not> in_shadow spheres point N l"
  then show "lights_loop spheres dir point N mat (l # ls) (diffuse, specular) =
      lights_loop spheres dir point N mat ls
        (diffuse + diffuse_term point N l, specular + specular_term dir point N mat l)"
    by (simp only: lights_loop_Cons if_False)
next
  assume "case scene_intersect (offset_orig (normalize_vec (position l - point)) point N)
             (normalize_vec (position l - point)) spheres 0 0 default_material of
        (occluder, shadow_pt, shadow_N, tmpmaterial) \<Rightarrow>
          norm_vec (shadow_pt - offset_orig (normalize_vec (position l - point)) point N) =
            norm_vec (position l - point)"
  then show "\<not> in_shadow spheres point N l"
    by (cases "scene_intersect (offset_orig (normalize_vec (position l - point)) point N)
             (normalize_vec (position l - point)) spheres 0 0 default_material")
       (simp add: in_shadow_def Let_def)
qed

theorem shadow_test_witness:
  "in_shadow [\<lparr>center = Vec3f 0 5 0, radius = 1, material = default_material\<rparr>]
     (Vec3f 0 0 0) (Vec3f 0 1 0) \<lparr>position = Vec3f 0 10 0, intensity = 1.5\<rparr> \<and>
   lights_loop [\<lparr>center = Vec3f 0 5 0, radius = 1, material = default_material\<rparr>]
     (Vec3f 0 0 (- 1)) (Vec3f 0 0 0) (Vec3f 0 1 0) default_material
     [\<lparr>position = Vec3f 0 10 0, intensity = 1.5\<rparr>] (0, 0) = (0, 0) \<and>
   (case scene_intersect (Vec3f 0 (1 / 1000) 0) (Vec3f 0 1 0)
           [\<lparr>center = Vec3f 0 (11 + 1 / 1000) 0, radius = 1, material = default_material\<rparr>]
           0 0 default_material of
      (occluder, shadow_pt, shadow_N, tmpmaterial) \<Rightarrow>
        occluder \<and> norm_vec (shadow_pt - Vec3f 0 (1 / 1000) 0) = 10) \<and>
   \<not> in_shadow [\<lparr>center = Vec3f 0 (11 + 1 / 1000) 0, radius = 1, material = default_material\<rparr>]
     (Vec3f 0 0 0) (Vec3f 0 1 0) \<lparr>position = Vec3f 0 10 0, intensity = 1.5\<rparr>"
proof -
  let ?P = "Vec3f 0 0 0" and ?N = "Vec3f 0 1 0"
  let ?L = "\<lparr>position = Vec3f 0 10 0, intensity = 1.5\<rparr>"
  let ?near = "[\<lparr>center = Vec3f 0 5 0, radius = 1, material = default_material\<rparr>]"
  let ?far = "[\<lparr>center = Vec3f 0 (11 + 1 / 1000) 0, radius = 1, material = default_material\<rparr>]"
  have ld: "normalize_vec (position ?L - ?P) = Vec3f 0 1 0"
    using axis_light_dir[of 10] by simp
  have dist: "norm_vec (position ?L - ?P) = 10"
    by (simp add: minus_Vec3f_def norm_vec_axis_y)
  have so: "offset_orig (Vec3f 0 1 0) ?P ?N = Vec3f 0 (1 / 1000) 0"
    by (simp add: offset_orig_def dot_def plus_Vec3f_def scale_vec_def)
  have near: "scene_intersect (Vec3f 0 (1 / 1000) 0) (Vec3f 0 1 0) ?near 0 0 default_material =
      (True, Vec3f 0 (5 - 1) 0, Vec3f 0 (- 1) 0, default_material)"
    by (rule axis_shadow_ray) simp_all
  have far: "scene_intersect (Vec3f 0 (1 / 1000) 0) (Vec3f 0 1 0) ?far 0 0 default_material =
      (True, Vec3f 0 (11 + 1 / 1000 - 1) 0, Vec3f 0 (- 1) 0, default_material)"
    by (rule axis_shadow_ray) simp_all
  note inst_near = shadow_test[of ?near "Vec3f 0 0 (- 1)" ?P ?N default_material "[?L]" ?L "[]" 0 0]
  note inst_far = shadow_test[of ?far "Vec3f 0 0 (- 1)" ?P ?N default_material "[?L]" ?L "[]" 0 0]
  have n4: "norm_vec (Vec3f 0 (5 - 1) 0 - Vec3f 0 (1 / 1000) 0) < 10"
    by (simp add: minus_Vec3f_def norm_vec_axis_y)
  have n10: "norm_vec (Vec3f 0 (11 + 1 / 1000 - 1) 0 - Vec3f 0 (1 / 1000) 0) = 10"
    by (simp add: minus_Vec3f_def norm_vec_axis_y)
  have a: "in_shadow ?near ?P ?N ?L"
    using inst_near[THEN conjunct2, THEN conjunct1]
    by (simp only: ld dist so near prod.case n4 simp_thms)
  have b: "lights_loop ?near (Vec3f 0 0 (- 1)) ?P ?N default_material [?L] (0, 0) = (0, 0)"
    using inst_near[THEN conjunct1] a
    by (simp only: filter.simps simp_thms if_False list.map sum_list.Nil)
  have c: "case scene_intersect (Vec3f 0 (1 / 1000) 0) (Vec3f 0 1 0) ?far 0 0 default_material of
      (occluder, shadow_pt, shadow_N, tmpmaterial) \<Rightarrow>
        occluder \<and> norm_vec (shadow_pt - Vec3f 0 (1 / 1000) 0) = 10"
    by (simp only: far prod.case n10 simp_thms)
  have d: "\<not> in_shadow ?far ?P ?N ?L"
    using inst_far[THEN conjunct2, THEN conjunct2, THEN conjunct2, THEN conjunct2]
    by (simp only: ld dist so far prod.case n10 simp_thms)
  from a b c d show ?thesis by (intro conjI)
qed

section \<open>The primary rays\<close>

lemma fov_value: "fov = 1"
proof -
  have "\<lfloor>3.14159265 / 2 :: real\<rfloor> = 1" by (rule floor_unique) simp_all
  then show ?thesis by (simp add: fov_def int_of_float_def)
qed

lemma tan_half_less_one: "tan (1 / 2 :: real) < 1"
proof -
  have s: "sin (1 / 2 :: real) \<le> 1 / 2" by (rule sin_x_le_x) simp
  have s0: "0 < sin (1 / 2 :: real)" by (rule sin_gt_zero_02) simp_all
  have "(1 / 2 :: real) < pi / 2" using pi_ge_two by simp
  then have c0: "0 < cos (1 / 2 :: real)" by (intro cos_gt_zero) simp_all
  have "(sin (1 / 2 :: real))\<^sup>2 \<le> (1 / 2)\<^sup>2" using s s0 by (intro power_mono) simp_all
  then have s2: "(sin (1 / 2 :: real))\<^sup>2 \<le> 1 / 4" by (simp add: power2_eq_square)
  have "(cos (1 / 2 :: real))\<^sup>2 = 1 - (sin (1 / 2))\<^sup>2"
    by (rule cos_squared_eq)
  with s2 have lt2: "(sin (1 / 2 :: real))\<^sup>2 < (cos (1 / 2))\<^sup>2" by simp
  have "sin (1 / 2 :: real) < cos (1 / 2)"
    by (rule power2_less_imp_less[OF lt2]) (rule less_imp_le[OF c0])
  then show ?thesis using c0 by (simp add: tan_def)
qed

text \<open>
  C7, what the program computes.  The claim gives the primary rays a field of view of
  \<open>pi / 2\<close>, the screen coordinates being scaled by \<open>tan (pi / 4) = 1\<close>.  The constant
  \<^verbatim>\<open>fov\<close> is declared \<^verbatim>\<open>int\<close>, so its initialiser \<open>3.14159265 / 2\<close> is truncated
  to \<open>1\<close>: the angle passed to \<^verbatim>\<open>tan\<close> is \<open>1 / 2\<close>, the factor is \<open>tan (1 / 2)\<close>,
  which is less than \<open>tan (pi / 4)\<close>, and every primary direction is computed with it.
  The aspect correction by the downsampled width and height, the \<open>-1\<close> in the third
  component and the normalisation are as the claim says.
\<close>

theorem fov_is_one_radian:
  "fov = 1 \<and> real_of_int fov / 2 = 1 / 2 \<and>
   tan (real_of_int fov / 2) < tan (pi / 4) \<and>
   primary_dir scale i j =
     normalize_vec
       (Vec3f ((2 * (real i + 0.5) / real_of_int (width sdiv scale) - 1) * tan (1 / 2) *
                 real_of_int (width sdiv scale) / real_of_int (height sdiv scale))
              (- (2 * (real j + 0.5) / real_of_int (height sdiv scale) - 1) * tan (1 / 2))
              (- 1))"
proof (intro conjI)
  show "fov = 1" by (rule fov_value)
  show "real_of_int fov / 2 = 1 / 2" by (simp add: fov_value)
  show "tan (real_of_int fov / 2) < tan (pi / 4)"
    using tan_half_less_one by (simp add: fov_value tan_45)
  show "primary_dir scale i j =
     normalize_vec
       (Vec3f ((2 * (real i + 0.5) / real_of_int (width sdiv scale) - 1) * tan (1 / 2) *
                 real_of_int (width sdiv scale) / real_of_int (height sdiv scale))
              (- (2 * (real j + 0.5) / real_of_int (height sdiv scale) - 1) * tan (1 / 2))
              (- 1))"
    by (simp only: primary_dir_def Let_def fov_value of_int_1)
qed

section \<open>Enough fuel\<close>

text \<open>
  For a \<^verbatim>\<open>maxDepth\<close> that is not negative the recursion of \<^verbatim>\<open>cast_ray\<close> ends: a
  call at depth \<open>0\<close> returns as soon as the fuel is \<open>maxDepth + 2\<close>.
\<close>

lemma cast_ray_None:
  assumes "cast_ray (Suc fuel) orig dir spheres lights depth maxDepth = None"
  shows "\<not> depth_exceeded depth maxDepth \<and>
    (\<exists>orig' dir'. cast_ray fuel orig' dir' spheres lights (depth + 1) maxDepth = None)"
proof -
  obtain found point N mat where
    si: "scene_intersect orig dir spheres 0 0 default_material = (found, point, N, mat)"
    by (cases "scene_intersect orig dir spheres 0 0 default_material") auto
  obtain dl sl where ll: "lights_loop spheres dir point N mat lights (0, 0) = (dl, sl)"
    by (cases "lights_loop spheres dir point N mat lights (0, 0)") auto
  from assms show ?thesis
    apply (subst (asm) cast_ray.simps(2))
    apply (simp only: si prod.case Let_def ll split: if_splits option.splits)
    apply blast+
    done
qed

lemma cast_ray_returns_from:
  assumes m: "0 \<le> sint maxDepth"
  shows "unat depth \<le> nat (sint maxDepth) + 1 \<Longrightarrow> nat (sint maxDepth) + 2 \<le> fuel + unat depth \<Longrightarrow>
    cast_ray fuel orig dir spheres lights depth maxDepth \<noteq> None"
proof (induction fuel arbitrary: depth orig dir)
  case 0
  then show ?case by simp
next
  case (Suc fuel)
  show ?case
  proof
    assume "cast_ray (Suc fuel) orig dir spheres lights depth maxDepth = None"
    from cast_ray_None[OF this] obtain orig' dir' where
      ne: "\<not> depth_exceeded depth maxDepth"
      and rec: "cast_ray fuel orig' dir' spheres lights (depth + 1) maxDepth = None"
      by blast
    from ne have le: "uint depth \<le> sint maxDepth"
      by (simp add: depth_exceeded_nonneg[OF m])
    have "nat (uint depth) \<le> nat (sint maxDepth)" using le by (rule nat_mono)
    then have ule: "unat depth \<le> nat (sint maxDepth)" by (simp only: unat_eq_nat_uint)
    have "sint maxDepth < 2147483648" by (rule sint_32_bounds)
    then have "nat (sint maxDepth) < 2147483648" by simp
    with ule have "unat depth < 2147483648" by simp
    then have u: "unat (depth + 1) = unat depth + 1"
      by (simp add: unat_word_ariths)
    have "unat (depth + 1) \<le> nat (sint maxDepth) + 1" using u ule by simp
    moreover have "nat (sint maxDepth) + 2 \<le> fuel + unat (depth + 1)"
      using Suc.prems(2) u by simp
    ultimately have "cast_ray fuel orig' dir' spheres lights (depth + 1) maxDepth \<noteq> None"
      by (rule Suc.IH)
    with rec show False by contradiction
  qed
qed

lemma cast_ray_returns:
  "0 \<le> sint maxDepth \<Longrightarrow> nat (sint maxDepth) + 2 \<le> fuel \<Longrightarrow>
   cast_ray fuel orig dir spheres lights 0 maxDepth \<noteq> None"
  by (rule cast_ray_returns_from) simp_all

section \<open>The framebuffer\<close>

lemma for_loop_writes:
  assumes step: "\<And>x fb. x \<in> set xs \<Longrightarrow> length fb = n \<Longrightarrow>
      \<exists>fb'. body x fb = Inr fb' \<and> length fb' = n \<and>
        (\<forall>k<n. fb' ! k = (if k \<in> S x then g k else fb ! k))"
    and len: "length fb = n"
  shows "\<exists>fb'. for_loop xs body fb = Inr fb' \<and> length fb' = n \<and>
        (\<forall>k<n. fb' ! k = (if k \<in> (\<Union>x\<in>set xs. S x) then g k else fb ! k))"
  using step len
proof (induction xs arbitrary: fb)
  case Nil
  then show ?case by simp
next
  case (Cons x xs)
  from Cons.prems(1)[of x fb] Cons.prems(2)
  obtain fb1 where fb1: "body x fb = Inr fb1" "length fb1 = n"
    "\<forall>k<n. fb1 ! k = (if k \<in> S x then g k else fb ! k)"
    by auto
  have "\<exists>fb'. for_loop xs body fb1 = Inr fb' \<and> length fb' = n \<and>
        (\<forall>k<n. fb' ! k = (if k \<in> (\<Union>x\<in>set xs. S x) then g k else fb1 ! k))"
    by (rule Cons.IH) (use Cons.prems(1) fb1(2) in auto)
  then obtain fb2 where fb2: "for_loop xs body fb1 = Inr fb2" "length fb2 = n"
    "\<forall>k<n. fb2 ! k = (if k \<in> (\<Union>x\<in>set xs. S x) then g k else fb1 ! k)"
    by blast
  have "for_loop (x # xs) body fb = Inr fb2"
    by (simp add: fb1(1) fb2(1))
  moreover have "\<forall>k<n. fb2 ! k = (if k \<in> (\<Union>x\<in>set (x # xs). S x) then g k else fb ! k)"
    using fb1(3) fb2(3) by auto
  ultimately show ?case using fb2(2) by blast
qed

lemma sdiv_pos_int: "0 \<le> a \<Longrightarrow> 0 < b \<Longrightarrow> (a :: int) sdiv b = a div b"
  by (simp add: signed_divide_int_def sgn_if)

lemma grid_index_in_buffer:
  fixes scale :: int
  assumes s: "1 \<le> scale" and i: "i < nat (width sdiv scale)" and j: "j < nat (height sdiv scale)"
  shows "i + j * 1024 < nat ((width * height) sdiv scale)"
proof -
  have W: "width sdiv scale = 1024 div scale" and H: "height sdiv scale = 768 div scale"
    and n: "(width * height) sdiv scale = 786432 div scale"
    using s by (simp_all add: width_def height_def sdiv_pos_int)
  have "1024 div scale \<le> 1024" by (rule int_div_le_self) simp
  then have i': "int i < 1024" using i W by linarith
  have j': "int j + 1 \<le> 768 div scale" using j H by linarith
  have "768 = (768 div scale) * scale + 768 mod scale" by simp
  moreover have "0 \<le> 768 mod scale" using s by simp
  ultimately have "(768 div scale) * scale \<le> 768" by linarith
  then have "(768 div scale) * 1024 * scale \<le> 786432" by (simp add: mult.commute)
  then have "((768 div scale) * 1024 * scale) div scale \<le> 786432 div scale"
    using s by (intro zdiv_mono1) simp_all
  then have "(768 div scale) * 1024 \<le> 786432 div scale"
    using s by simp
  moreover have "int i + int j * 1024 < (768 div scale) * 1024" using i' j' by simp
  ultimately have "int (i + j * 1024) < 786432 div scale" by simp
  then show ?thesis using n by simp
qed

lemma fill_pixel_writes:
  assumes s: "1 \<le> scale" and i: "i < nat (width sdiv scale)" and j: "j < nat (height sdiv scale)"
    and len: "length fb = nat ((width * height) sdiv scale)"
    and ret: "pixel_color fuel spheres lights scale maxDepth i j \<noteq> None"
  shows "\<exists>fb'. fill_pixel fuel spheres lights scale maxDepth j i fb = Inr fb' \<and>
      length fb' = nat ((width * height) sdiv scale) \<and>
      (\<forall>k<nat ((width * height) sdiv scale).
         fb' ! k =
           (if k \<in> {i + j * 1024}
            then the (pixel_color fuel spheres lights scale maxDepth (k mod 1024) (k div 1024))
            else fb ! k))"
proof -
  from ret obtain c where c: "pixel_color fuel spheres lights scale maxDepth i j = Some c" by blast
  have b: "i + j * 1024 < length fb"
    using grid_index_in_buffer[OF s i j] len by simp
  have "width sdiv scale = 1024 div scale" using s by (simp add: width_def sdiv_pos_int)
  moreover have "1024 div scale \<le> 1024" by (rule int_div_le_self) simp
  ultimately have i': "i < 1024" using i by linarith
  have idx: "int i + int j * width = int (i + j * 1024)" by (simp add: width_def)
  have w: "fill_pixel fuel spheres lights scale maxDepth j i fb = Inr (fb[i + j * 1024 := c])"
  proof -
    have "nat (int (i + j * 1024)) = i + j * 1024" by (rule nat_int)
    then show ?thesis
      unfolding fill_pixel_def c option.case idx fb_write_def using b by simp
  qed
  have "\<forall>k<nat ((width * height) sdiv scale).
         (fb[i + j * 1024 := c]) ! k =
           (if k \<in> {i + j * 1024}
            then the (pixel_color fuel spheres lights scale maxDepth (k mod 1024) (k div 1024))
            else fb ! k)"
    using b i' c by (auto simp: nth_list_update)
  with w len show ?thesis by simp
qed

lemma fill_row_writes:
  assumes s: "1 \<le> scale" and j: "j < nat (height sdiv scale)"
    and len: "length fb = nat ((width * height) sdiv scale)"
    and ret: "\<And>i. i < nat (width sdiv scale) \<Longrightarrow>
        pixel_color fuel spheres lights scale maxDepth i j \<noteq> None"
  shows "\<exists>fb'. for_loop [0..<nat (width sdiv scale)]
                 (fill_pixel fuel spheres lights scale maxDepth j) fb = Inr fb' \<and>
      length fb' = nat ((width * height) sdiv scale) \<and>
      (\<forall>k<nat ((width * height) sdiv scale).
         fb' ! k =
           (if k \<in> (\<Union>i\<in>set [0..<nat (width sdiv scale)]. {i + j * 1024})
            then the (pixel_color fuel spheres lights scale maxDepth (k mod 1024) (k div 1024))
            else fb ! k))"
proof (rule for_loop_writes[OF _ len])
  fix i and fb0 :: "Vec3f list"
  assume "i \<in> set [0..<nat (width sdiv scale)]"
    and l0: "length fb0 = nat ((width * height) sdiv scale)"
  then have i: "i < nat (width sdiv scale)" by simp
  show "\<exists>fb'. fill_pixel fuel spheres lights scale maxDepth j i fb0 = Inr fb' \<and>
      length fb' = nat ((width * height) sdiv scale) \<and>
      (\<forall>k<nat ((width * height) sdiv scale).
         fb' ! k =
           (if k \<in> {i + j * 1024}
            then the (pixel_color fuel spheres lights scale maxDepth (k mod 1024) (k div 1024))
            else fb0 ! k))"
    by (rule fill_pixel_writes[OF s i j l0 ret[OF i]])
qed

lemma fill_framebuffer_writes:
  assumes s: "1 \<le> scale"
    and len: "length fb = nat ((width * height) sdiv scale)"
    and ret: "\<And>i j. i < nat (width sdiv scale) \<Longrightarrow> j < nat (height sdiv scale) \<Longrightarrow>
        pixel_color fuel spheres lights scale maxDepth i j \<noteq> None"
  shows "\<exists>fb'. fill_framebuffer fuel spheres lights scale maxDepth fb = Inr fb' \<and>
      length fb' = nat ((width * height) sdiv scale) \<and>
      (\<forall>k<nat ((width * height) sdiv scale).
         fb' ! k =
           (if k \<in> (\<Union>j\<in>set [0..<nat (height sdiv scale)].
                      \<Union>i\<in>set [0..<nat (width sdiv scale)]. {i + j * 1024})
            then the (pixel_color fuel spheres lights scale maxDepth (k mod 1024) (k div 1024))
            else fb ! k))"
  unfolding fill_framebuffer_def
proof (rule for_loop_writes[OF _ len])
  fix j and fb0 :: "Vec3f list"
  assume "j \<in> set [0..<nat (height sdiv scale)]"
    and l0: "length fb0 = nat ((width * height) sdiv scale)"
  then have j: "j < nat (height sdiv scale)" by simp
  show "\<exists>fb'. for_loop [0..<nat (width sdiv scale)]
                 (fill_pixel fuel spheres lights scale maxDepth j) fb0 = Inr fb' \<and>
      length fb' = nat ((width * height) sdiv scale) \<and>
      (\<forall>k<nat ((width * height) sdiv scale).
         fb' ! k =
           (if k \<in> (\<Union>i\<in>set [0..<nat (width sdiv scale)]. {i + j * 1024})
            then the (pixel_color fuel spheres lights scale maxDepth (k mod 1024) (k div 1024))
            else fb0 ! k))"
    by (rule fill_row_writes[OF s j l0 ret[OF _ j]])
qed

lemma fill_framebuffer_result:
  assumes s: "1 \<le> scale"
    and ret: "\<And>i j. i < nat (width sdiv scale) \<Longrightarrow> j < nat (height sdiv scale) \<Longrightarrow>
        pixel_color fuel spheres lights scale maxDepth i j \<noteq> None"
  shows "\<exists>fb. fill_framebuffer fuel spheres lights scale maxDepth
                (replicate (nat ((width * height) sdiv scale)) 0) = Inr fb \<and>
      length fb = nat ((width * height) sdiv scale) \<and>
      (\<forall>i<nat (width sdiv scale). \<forall>j<nat (height sdiv scale).
         fb ! (i + j * 1024) = the (pixel_color fuel spheres lights scale maxDepth i j)) \<and>
      (\<forall>k<nat ((width * height) sdiv scale).
         (\<forall>i<nat (width sdiv scale). \<forall>j<nat (height sdiv scale). k \<noteq> i + j * 1024) \<longrightarrow>
         fb ! k = 0)"
proof -
  let ?n = "nat ((width * height) sdiv scale)"
  let ?W = "nat (width sdiv scale)" and ?H = "nat (height sdiv scale)"
  let ?U = "\<Union>j\<in>set [0..<?H]. \<Union>i\<in>set [0..<?W]. {i + j * 1024}"
  have len: "length (replicate ?n (0 :: Vec3f)) = ?n" by simp
  from fill_framebuffer_writes[OF s len ret]
  obtain fb where fb: "fill_framebuffer fuel spheres lights scale maxDepth (replicate ?n 0) = Inr fb"
    "length fb = ?n"
    "\<forall>k<?n. fb ! k =
       (if k \<in> ?U
        then the (pixel_color fuel spheres lights scale maxDepth (k mod 1024) (k div 1024))
        else replicate ?n 0 ! k)"
    by blast
  have "width sdiv scale = 1024 div scale" using s by (simp add: width_def sdiv_pos_int)
  moreover have "1024 div scale \<le> 1024" by (rule int_div_le_self) simp
  ultimately have W: "?W \<le> 1024" by linarith
  have written: "fb ! (i + j * 1024) = the (pixel_color fuel spheres lights scale maxDepth i j)"
    if i: "i < ?W" and j: "j < ?H" for i j
  proof -
    have k: "i + j * 1024 < ?n" by (rule grid_index_in_buffer[OF s i j])
    have "j \<in> set [0..<?H]" "i \<in> set [0..<?W]" using i j by simp_all
    then have "i + j * 1024 \<in> ?U" by blast
    moreover have "(i + j * 1024) mod 1024 = i" "(i + j * 1024) div 1024 = j"
      using i W by simp_all
    ultimately show ?thesis using fb(3) k by simp
  qed
  have untouched: "fb ! k = 0"
    if k: "k < ?n" and no: "\<forall>i<?W. \<forall>j<?H. k \<noteq> i + j * 1024" for k
  proof -
    have "k \<notin> ?U" using no by auto
    then show ?thesis using fb(3) k by simp
  qed
  from fb(1,2) written untouched show ?thesis by blast
qed

lemma scene_intersect_empty_upward:
  assumes "0 \<le> vec_y dir" and "- 4 \<le> vec_y orig"
  shows "scene_intersect orig dir [] hit N mat = (False, hit, N, mat)"
proof -
  have sl: "spheres_loop orig dir [] (flt_max, hit, N, mat) = (flt_max, hit, N, mat)" by simp
  have "\<not> - (vec_y orig + 4) / vec_y dir > 0"
    using assms by (simp add: divide_nonpos_nonneg not_less)
  then have pa: "\<not> plane_accepted orig dir flt_max" by (simp add: plane_accepted_def)
  have "\<not> min flt_max flt_max < 1000" by (simp add: flt_max_def)
  with scene_intersect_no_plane[OF sl pa] show ?thesis by simp
qed

lemma normalize_vec_y_pos: "0 < b \<Longrightarrow> 0 < vec_y (normalize_vec (Vec3f a b (- 1)))"
proof -
  assume b: "0 < b"
  have "0 < a * a + b * b + 1" using b by (simp add: add_nonneg_pos add_pos_nonneg)
  then have "0 < norm_vec (Vec3f a b (- 1))" by (simp add: norm_vec_def)
  then show ?thesis using b by (simp add: normalize_vec_def scale_vec_def)
qed

lemma tan_half_pos: "0 < tan (1 / 2 :: real)"
proof -
  have "(1 / 2 :: real) < pi / 2" using pi_ge_two by simp
  then show ?thesis by (intro tan_gt_zero) simp_all
qed

lemma primary_dir_upward:
  assumes "j < 48"
  shows "0 < vec_y (primary_dir 8 i j)"
proof -
  have H: "height sdiv 8 = 96" by (simp add: height_def sdiv_pos_int)
  have "2 * (real j + 0.5) / 96 < 1" using assms by simp
  then have "0 < - (2 * (real j + 0.5) / real_of_int (height sdiv 8) - 1) * tan (real_of_int fov / 2)"
    using tan_half_pos by (simp add: H fov_value)
  then show ?thesis unfolding primary_dir_def Let_def by (rule normalize_vec_y_pos)
qed

lemma pixel_color_empty_scene:
  assumes "j < 48"
  shows "pixel_color (Suc fuel) [] lights 8 maxDepth i j = Some background"
proof -
  have "scene_intersect (Vec3f 0 0 0) (primary_dir 8 i j) [] 0 0 default_material =
      (False, 0, 0, default_material)"
    using primary_dir_upward[OF assms, of i] by (intro scene_intersect_empty_upward) simp_all
  then have "\<not> fst (scene_intersect (Vec3f 0 0 0) (primary_dir 8 i j) [] 0 0 default_material)"
    by simp
  then show ?thesis unfolding pixel_color_def by (rule cast_ray_miss)
qed

lemma pixel_color_returns:
  "0 \<le> sint maxDepth \<Longrightarrow> nat (sint maxDepth) + 2 \<le> fuel \<Longrightarrow>
   pixel_color fuel spheres lights scale maxDepth i j \<noteq> None"
  unfolding pixel_color_def by (rule cast_ray_returns)

lemma grid_8: "nat (width sdiv 8) = 128" "nat (height sdiv 8) = 96"
  "nat ((width * height) sdiv 8) = 98304" "nat width = 1024"
  by (simp_all add: width_def height_def sdiv_pos_int)

lemma empty_scene_framebuffer_8:
  "\<exists>fb. fill_framebuffer 6 [] [] 8 4 (replicate (nat ((width * height) sdiv 8)) 0) = Inr fb \<and>
     length fb = 98304 \<and>
     (\<forall>i<128. \<forall>j<48. fb ! (i + j * 1024) = background) \<and>
     (\<forall>j<96. fb ! (128 + j * 1024) = 0)"
proof -
  have m: "(0::int) \<le> sint (4 :: 32 word)" "nat (sint (4 :: 32 word)) + 2 \<le> 6" by simp_all
  from fill_framebuffer_result[of 8 6 "[]" "[]" 4, OF _ pixel_color_returns[OF m]]
  obtain fb where fb:
    "fill_framebuffer 6 [] [] 8 4 (replicate (nat ((width * height) sdiv 8)) 0) = Inr fb"
    "length fb = 98304"
    "\<forall>i<128. \<forall>j<96. fb ! (i + j * 1024) = the (pixel_color 6 [] [] 8 4 i j)"
    "\<forall>k<98304. (\<forall>i<128. \<forall>j<96. k \<noteq> i + j * 1024) \<longrightarrow> fb ! k = 0"
    unfolding grid_8 by auto
  have a: "fb ! (i + j * 1024) = background" if "i < 128" "j < 48" for i j
  proof -
    have "pixel_color (Suc 5) [] [] 8 4 i j = Some background"
      by (rule pixel_color_empty_scene[OF that(2)])
    then have "the (pixel_color 6 [] [] 8 4 i j) = background" by simp
    with fb(3) that show ?thesis by simp
  qed
  have b: "fb ! (128 + j * 1024) = 0" if "j < 96" for j
  proof -
    have "128 + j * 1024 \<noteq> i + j' * 1024" if "i < 128" for i j'
    proof
      assume "128 + j * 1024 = i + j' * 1024"
      then have "(128 + j * 1024) mod 1024 = (i + j' * 1024) mod 1024" by simp
      with that show False by simp
    qed
    moreover have "128 + j * 1024 < 98304" using that by simp
    ultimately show ?thesis using fb(4) by blast
  qed
  from fb(1,2) a b show ?thesis by blast
qed

text \<open>
  C8, the claim as stated fails.  With \<open>scale = 8\<close> the grid is \<open>128\<close> by \<open>96\<close> and the
  framebuffer has \<open>98304\<close> elements.  For the empty scene the pixel \<open>(i, j) = (0, 1)\<close>
  has the background colour.  Its row-major index in the downsampled grid is
  \<open>0 + 1 * 128\<close>, but the element there is still the zero vector of the
  value-initialisation after the filling loops: it is never written.  The colour of
  the pixel is at index \<open>0 + 1 * 1024\<close>.
\<close>

theorem framebuffer_not_row_major:
  "case fill_framebuffer 6 [] [] 8 4 (replicate (nat ((width * height) sdiv 8)) 0) of
     Inl e \<Rightarrow> False
   | Inr fb \<Rightarrow>
       length fb = 98304 \<and>
       pixel_color 6 [] [] 8 4 0 1 = Some (Vec3f 0.2 0.7 0.8) \<and>
       fb ! (0 + 1 * nat (width sdiv 8)) = Vec3f 0 0 0 \<and>
       fb ! (0 + 1 * nat width) = Vec3f 0.2 0.7 0.8"
proof -
  from empty_scene_framebuffer_8 obtain fb where fb:
    "fill_framebuffer 6 [] [] 8 4 (replicate (nat ((width * height) sdiv 8)) 0) = Inr fb"
    "length fb = 98304"
    "\<forall>i<128. \<forall>j<48. fb ! (i + j * 1024) = background"
    "\<forall>j<96. fb ! (128 + j * 1024) = 0"
    by blast
  have p: "pixel_color (Suc 5) [] [] 8 4 0 1 = Some background"
    by (rule pixel_color_empty_scene) simp
  have "fb ! 1024 = background" using fb(3)[rule_format, of 0 1] by simp
  moreover have "fb ! 128 = 0" using fb(4)[rule_format, of 0] by simp
  ultimately have "length fb = 98304 \<and>
       pixel_color 6 [] [] 8 4 0 1 = Some (Vec3f 0.2 0.7 0.8) \<and>
       fb ! (0 + 1 * nat (width sdiv 8)) = Vec3f 0 0 0 \<and>
       fb ! (0 + 1 * nat width) = Vec3f 0.2 0.7 0.8"
    using p fb(2) by (simp add: grid_8 background_def zero_Vec3f_def)
  then show ?thesis by (simp only: fb(1) sum.case)
qed

text \<open>
  C8, amended.  For a \<open>scale\<close> of at least \<open>1\<close> (and a \<^verbatim>\<open>maxDepth\<close> that is not
  negative, with fuel for it) \<^verbatim>\<open>render\<close> creates one framebuffer of
  \<open>(width * height) / scale\<close> value-initialised elements, fills it, and only then runs
  the compressor on it.  The filling loops return, and they store the shading result of
  every pixel \<open>(i, j)\<close> of the \<open>width / scale\<close> by \<open>height / scale\<close> grid at index
  \<open>i + j * width\<close>: the row stride is the full display width.  Every element at an
  index not of that form keeps its initial value, the zero vector.
\<close>

theorem framebuffer_stride_is_width:
  assumes "1 \<le> scale" and "0 \<le> sint maxDepth" and "nat (sint maxDepth) + 2 \<le> fuel"
  shows "\<exists>fb. fill_framebuffer fuel spheres lights scale maxDepth
                (replicate (nat ((width * height) sdiv scale)) 0) = Inr fb \<and>
      render fuel spheres lights scale maxDepth = compress fb scale \<and>
      length fb = nat ((width * height) sdiv scale) \<and>
      (\<forall>i<nat (width sdiv scale). \<forall>j<nat (height sdiv scale).
         \<exists>c. pixel_color fuel spheres lights scale maxDepth i j = Some c \<and>
             fb ! (i + j * nat width) = c) \<and>
      (\<forall>k<length fb.
         (\<forall>i<nat (width sdiv scale). \<forall>j<nat (height sdiv scale). k \<noteq> i + j * nat width) \<longrightarrow>
         fb ! k = 0)"
proof -
  have ret: "pixel_color fuel spheres lights scale maxDepth i j \<noteq> None" for i j
    by (rule pixel_color_returns[OF assms(2,3)])
  from fill_framebuffer_result[OF assms(1) ret]
  obtain fb where fb:
    "fill_framebuffer fuel spheres lights scale maxDepth
       (replicate (nat ((width * height) sdiv scale)) 0) = Inr fb"
    "length fb = nat ((width * height) sdiv scale)"
    "\<forall>i<nat (width sdiv scale). \<forall>j<nat (height sdiv scale).
       fb ! (i + j * 1024) = the (pixel_color fuel spheres lights scale maxDepth i j)"
    "\<forall>k<nat ((width * height) sdiv scale).
       (\<forall>i<nat (width sdiv scale). \<forall>j<nat (height sdiv scale). k \<noteq> i + j * 1024) \<longrightarrow>
       fb ! k = 0"
    by blast
  have w: "nat width = 1024" by (simp add: width_def)
  have "0 \<le> (width * height) sdiv scale"
    using assms(1) by (simp add: width_def height_def sdiv_pos_int pos_imp_zdiv_nonneg_iff)
  then have r: "render fuel spheres lights scale maxDepth = compress fb scale"
    using assms(1) unfolding render_def fb(1) by simp
  have wr: "\<forall>i<nat (width sdiv scale). \<forall>j<nat (height sdiv scale).
         \<exists>c. pixel_color fuel spheres lights scale maxDepth i j = Some c \<and>
             fb ! (i + j * nat width) = c"
    using fb(3) ret unfolding w by fastforce
  have un: "\<forall>k<length fb.
         (\<forall>i<nat (width sdiv scale). \<forall>j<nat (height sdiv scale). k \<noteq> i + j * nat width) \<longrightarrow>
         fb ! k = 0"
    using fb(4) unfolding w fb(2) by simp
  from fb(1) r fb(2) wr un show ?thesis by blast
qed

theorem framebuffer_stride_is_width_witness:
  "(1::int) \<le> 8 \<and> (0::int) \<le> sint (4 :: 32 word) \<and> nat (sint (4 :: 32 word)) + 2 \<le> 6 \<and>
   (\<exists>fb. fill_framebuffer 6 [] [] 8 4 (replicate (nat ((width * height) sdiv 8)) 0) = Inr fb \<and>
         length fb = 98304 \<and>
         fb ! (5 + 2 * 1024) = Vec3f 0.2 0.7 0.8 \<and> fb ! (5 + 2 * 128) = Vec3f 0 0 0)"
proof -
  have h: "(1::int) \<le> 8" "(0::int) \<le> sint (4 :: 32 word)" "nat (sint (4 :: 32 word)) + 2 \<le> 6"
    by simp_all
  from framebuffer_stride_is_width[OF h, of "[]" "[]"]
  obtain fb where fb:
    "fill_framebuffer 6 [] [] 8 4 (replicate (nat ((width * height) sdiv 8)) 0) = Inr fb"
    "length fb = 98304"
    "\<forall>i<128. \<forall>j<96. \<exists>c. pixel_color 6 [] [] 8 4 i j = Some c \<and> fb ! (i + j * 1024) = c"
    "\<forall>k<98304. (\<forall>i<128. \<forall>j<96. k \<noteq> i + j * 1024) \<longrightarrow> fb ! k = 0"
    unfolding grid_8 by auto
  have "pixel_color (Suc 5) [] [] 8 4 5 2 = Some background"
    by (rule pixel_color_empty_scene) simp
  with fb(3)[rule_format, of 5 2] have a: "fb ! (5 + 2 * 1024) = Vec3f 0.2 0.7 0.8"
    by (simp add: background_def)
  have "(261::nat) \<noteq> i + j * 1024" if "i < 128" for i j
  proof
    assume "261 = i + j * 1024"
    then have "(261::nat) mod 1024 = (i + j * 1024) mod 1024" by simp
    with that show False by simp
  qed
  with fb(4)[rule_format, of 261] have b: "fb ! (5 + 2 * 128) = Vec3f 0 0 0"
    by (simp add: zero_Vec3f_def)
  from h fb(1,2) a b show ?thesis by blast
qed

section \<open>The rectangle compressor\<close>

lemma for_loop_append:
  "for_loop (xs @ ys) body st =
     (case for_loop xs body st of Inl e \<Rightarrow> Inl e | Inr st' \<Rightarrow> for_loop ys body st')"
  by (induction xs arbitrary: st) (simp_all split: sum.splits)

lemma for_loop_unchanged:
  "(\<And>x. x \<in> set xs \<Longrightarrow> body x st = Inr st) \<Longrightarrow> for_loop xs body st = Inr st"
  by (induction xs) simp_all

lemma smod_nonneg_int: "0 \<le> a \<Longrightarrow> 0 < b \<Longrightarrow> (a :: int) smod b = a mod b"
  by (simp add: signed_modulo_int_def sgn_if)

lemma compress_step_same:
  assumes "fb_read fb (base + int col) = Inr c" and "int col \<noteq> width sdiv scale - 1"
  shows "compress_step fb scale base col (start, c, drawn) = Inr (start, c, drawn)"
  using assms by (simp add: compress_step_def Let_def)

lemma compress_step_end_row:
  assumes "fb_read fb (base + int col) = Inr c" and "int col = width sdiv scale - 1"
    and "color_correction c = c" and "color_of c = Inr rgba"
  shows "compress_step fb scale base col (start, c, drawn) =
     Inr (start, c,
          drawn @ [DrawRectangle ((start smod width) * scale) ((start sdiv width) * scale)
                     ((int col - start smod (width sdiv scale)) * scale) scale rgba])"
  using assms by (simp add: compress_step_def Let_def)

lemma compress_step_change:
  assumes "fb_read fb (base + int col) = Inr px"
    and "at3 px 0 \<noteq> at3 c 0 \<or> at3 px 1 \<noteq> at3 c 1 \<or> at3 px 2 \<noteq> at3 c 2"
    and "color_of (color_correction c) = Inr rgba"
  shows "compress_step fb scale base col (start, c, drawn) =
     Inr (base + int col, px,
          drawn @ [DrawRectangle ((start smod width) * scale) ((start sdiv width) * scale)
                     ((int col - start smod (width sdiv scale)) * scale) scale rgba])"
  using assms by (simp add: compress_step_def Let_def)

lemma upt_129: "[0..<129] = [0..<127] @ [127, 128]"
proof -
  have "[0..<127 + 2] = [0..<127] @ [127..<127 + 2]" by (rule upt_add_eq_append) simp
  moreover have "[127..<127 + 2] = [127, 128 :: nat]" by (simp add: upt_conv_Cons)
  ultimately show ?thesis by simp
qed

lemma compress_uniform_row_8:
  assumes r: "r < 96" and len: "length fb = 98304"
    and uni: "\<forall>i<128. fb ! (i + r * 1024) = c"
    and sent: "fb ! (128 + r * 1024) = s"
    and diff: "at3 s 0 \<noteq> at3 c 0 \<or> at3 s 1 \<noteq> at3 c 1 \<or> at3 s 2 \<noteq> at3 c 2"
    and cc: "color_correction c = c" and co: "color_of c = Inr rgba"
  shows "compress_row fb 8 r drawn =
     Inr (drawn @ [DrawRectangle 0 (int r * 8) 1016 8 rgba,
                   DrawRectangle 0 (int r * 8) 1024 8 rgba])"
proof -
  let ?base = "int r * width"
  have W: "width sdiv 8 = 128" by (simp add: width_def sdiv_pos_int)
  have rd: "fb_read fb (?base + int col) = Inr (fb ! (col + r * 1024))" if "col \<le> 128" for col
  proof -
    have "col + r * 1024 < 98304" using r that by simp
    moreover have "?base + int col = int (col + r * 1024)" by (simp add: width_def)
    ultimately show ?thesis unfolding fb_read_def using len by (simp del: of_nat_add of_nat_mult)
  qed
  have rdc: "fb_read fb (?base + int col) = Inr c" if "col < 128" for col
    using rd[of col] uni that by simp
  have rds: "fb_read fb (?base + int 128) = Inr s"
    using rd[of 128] sent by simp
  have rd0: "fb_read fb ?base = Inr c" using rdc[of 0] by simp
  have sm: "?base smod width = 0" "?base sdiv width = int r" "?base smod 128 = 0"
    by (simp_all add: width_def smod_nonneg_int sdiv_pos_int)
  have p1: "for_loop [0..<127] (compress_step fb 8 ?base) (?base, c, drawn) = Inr (?base, c, drawn)"
  proof (rule for_loop_unchanged)
    fix col assume "col \<in> set [0..<127]"
    then have "col < 127" by simp
    then show "compress_step fb 8 ?base col (?base, c, drawn) = Inr (?base, c, drawn)"
      by (intro compress_step_same rdc) (simp_all add: W)
  qed
  have p2: "compress_step fb 8 ?base 127 (?base, c, drawn) =
      Inr (?base, c, drawn @ [DrawRectangle 0 (int r * 8) 1016 8 rgba])"
    using compress_step_end_row[OF rdc[of 127] _ cc co, of 8 ?base drawn]
    by (simp add: W sm)
  have p3: "compress_step fb 8 ?base 128
        (?base, c, drawn @ [DrawRectangle 0 (int r * 8) 1016 8 rgba]) =
      Inr (?base + int 128, s,
           (drawn @ [DrawRectangle 0 (int r * 8) 1016 8 rgba]) @
             [DrawRectangle 0 (int r * 8) 1024 8 rgba])"
    using compress_step_change[OF rds diff, of rgba 8 ?base
        "drawn @ [DrawRectangle 0 (int r * 8) 1016 8 rgba]"] cc co
    by (simp add: W sm)
  have "for_loop [0..<nat (width sdiv 8 + 1)] (compress_step fb 8 ?base) (?base, c, drawn) =
      Inr (?base + int 128, s,
           drawn @ [DrawRectangle 0 (int r * 8) 1016 8 rgba,
                    DrawRectangle 0 (int r * 8) 1024 8 rgba])"
  proof -
    have "nat (width sdiv 8 + 1) = 129" by (simp add: W)
    then show ?thesis
      by (simp only: upt_129 for_loop_append p1 sum.case for_loop.simps p2 p3 append_assoc
            append_Cons append_Nil)
  qed
  then show ?thesis
    unfolding compress_row_def Let_def rd0 by simp
qed

lemma background_color:
  "color_correction background = background"
  "color_of background = Inr (Color 51 178 204 255)"
proof -
  show "color_correction background = background"
    by (simp add: color_correction_def background_def)
  have "\<lfloor>357 / 2 :: real\<rfloor> = 178" by (rule floor_unique) simp_all
  then show "color_of background = Inr (Color 51 178 204 255)"
    by (simp add: color_of_def background_def uchar_of_float_def int_of_float_def)
qed

text \<open>
  For \<open>scale = 1\<close> the last row of the compressor reads the element at index
  \<open>767 * 1024 + 1024\<close>, one past the end of the framebuffer of \<open>786432\<close> elements:
  whatever the frame holds, the row does not complete.
\<close>

lemma compress_step_out_of_bounds:
  "\<not> (0 \<le> base + int col \<and> base + int col < int (length fb)) \<Longrightarrow>
   compress_step fb scale base col st = Inl OutOfBounds"
proof -
  assume "\<not> (0 \<le> base + int col \<and> base + int col < int (length fb))"
  then have "fb_read fb (base + int col) = Inl OutOfBounds" by (simp only: fb_read_def if_False)
  then show ?thesis
    by (cases st) (simp only: compress_step_def Let_def prod.case sum.case)
qed

lemma last_row_scale_1_reads_past_the_end:
  assumes "length fb = 786432"
  shows "\<exists>e. compress_row fb 1 767 drawn = Inl e"
proof -
  have W: "nat (width sdiv 1 + 1) = Suc 1024" by (simp add: width_def sdiv_pos_int)
  have u: "[0..<Suc 1024] = [0..<1024] @ [1024]" by (rule upt_Suc_append) simp
  have oob: "compress_step fb 1 (767 * width) 1024 st = Inl OutOfBounds" for st
    by (rule compress_step_out_of_bounds) (simp add: assms width_def)
  have "\<exists>e. for_loop [0..<Suc 1024] (compress_step fb 1 (767 * width)) st = Inl e" for st
    unfolding u for_loop_append
    by (cases "for_loop [0..<1024] (compress_step fb 1 (767 * width)) st") (simp_all add: oob)
  then have l: "\<exists>e. for_loop [0..<Suc 1024] (compress_step fb 1 (767 * width))
      (767 * width, c, drawn) = Inl e" for c
    by blast
  have b: "int 767 * width = 767 * width" by simp
  show ?thesis
  proof (cases "fb_read fb (767 * width)")
    case (Inl e)
    then show ?thesis unfolding compress_row_def Let_def W b by simp
  next
    case (Inr c)
    from l[of c] obtain e where
      "for_loop [0..<Suc 1024] (compress_step fb 1 (767 * width)) (767 * width, c, drawn) = Inl e"
      by blast
    then show ?thesis unfolding compress_row_def Let_def W b Inr by (simp del: upt_Suc)
  qed
qed

text \<open>
  C6, what the program computes.  The claim promises one rectangle for each maximal
  run of a row, the rectangles tiling the row without overlap.  For the empty scene
  and \<open>scale = 8\<close> the framebuffer that \<^verbatim>\<open>render\<close> fills has the background colour in
  all \<open>128\<close> pixels of row \<open>0\<close>, one maximal run, followed at index \<open>128\<close> by an
  element that was never written.  The compressor draws two rectangles for this row:
  at column \<open>127\<close>, the end of the row, one of width \<open>127 * 8\<close>, which leaves the last
  pixel out; then, at the additional column \<open>128\<close>, where the element read differs,
  one of width \<open>128 * 8\<close> over the same position.
\<close>

theorem uniform_row_drawn_twice:
  "\<exists>fb. fill_framebuffer 6 [] [] 8 4 (replicate (nat ((width * height) sdiv 8)) 0) = Inr fb \<and>
     take 128 fb = replicate 128 (Vec3f 0.2 0.7 0.8) \<and>
     fb ! 128 = Vec3f 0 0 0 \<and>
     compress_row fb 8 0 [] =
       Inr [DrawRectangle 0 0 1016 8 (Color 51 178 204 255),
            DrawRectangle 0 0 1024 8 (Color 51 178 204 255)]"
proof -
  from empty_scene_framebuffer_8 obtain fb where fb:
    "fill_framebuffer 6 [] [] 8 4 (replicate (nat ((width * height) sdiv 8)) 0) = Inr fb"
    "length fb = 98304"
    "\<forall>i<128. \<forall>j<48. fb ! (i + j * 1024) = background"
    "\<forall>j<96. fb ! (128 + j * 1024) = 0"
    by blast
  have row: "\<forall>i<128. fb ! (i + 0 * 1024) = background"
  proof (intro allI impI)
    fix i :: nat assume "i < 128"
    then show "fb ! (i + 0 * 1024) = background" using fb(3)[rule_format, of i 0] by simp
  qed
  have s: "fb ! (128 + 0 * 1024) = Vec3f 0 0 0"
    using fb(4)[rule_format, of 0] by (simp add: zero_Vec3f_def)
  have d: "at3 (Vec3f 0 0 0) 0 \<noteq> at3 background 0 \<or> at3 (Vec3f 0 0 0) 1 \<noteq> at3 background 1 \<or>
      at3 (Vec3f 0 0 0) 2 \<noteq> at3 background 2"
    by (simp add: background_def)
  have "compress_row fb 8 0 [] =
      Inr ([] @ [DrawRectangle 0 (int 0 * 8) 1016 8 (Color 51 178 204 255),
                 DrawRectangle 0 (int 0 * 8) 1024 8 (Color 51 178 204 255)])"
    by (rule compress_uniform_row_8[OF _ fb(2) row s d background_color]) simp
  then have c: "compress_row fb 8 0 [] =
       Inr [DrawRectangle 0 0 1016 8 (Color 51 178 204 255),
            DrawRectangle 0 0 1024 8 (Color 51 178 204 255)]"
    by simp
  have t: "take 128 fb = replicate 128 (Vec3f 0.2 0.7 0.8)"
    using fb(2) row by (intro nth_equalityI) (simp_all add: background_def)
  from fb(1) t s c show ?thesis by auto
qed

section \<open>The quality settings\<close>

lemma update_scale_valid:
  "scale \<in> {1, 2, 4, 8, 16} \<Longrightarrow> update_scale scale key_left key_right \<in> {1, 2, 4, 8, 16}"
  by (auto simp: update_scale_def signed_divide_int_def)

lemma update_maxDepth_valid:
  "1 \<le> maxDepth \<and> maxDepth \<le> 4 \<Longrightarrow>
   1 \<le> update_maxDepth maxDepth key_down key_up \<and> update_maxDepth maxDepth key_down key_up \<le> 4"
  by (auto simp: update_maxDepth_def)

lemma run_frames_valid:
  "scale0 \<in> {1, 2, 4, 8, 16} \<Longrightarrow> 1 \<le> maxDepth0 \<and> maxDepth0 \<le> 4 \<Longrightarrow>
   run_frames (scale0, maxDepth0) frames = (scale, maxDepth) \<Longrightarrow>
   scale \<in> {1, 2, 4, 8, 16} \<and> 1 \<le> maxDepth \<and> maxDepth \<le> 4"
proof (induction frames arbitrary: scale0 maxDepth0)
  case Nil
  then show ?case by simp
next
  case (Cons ks frames)
  obtain l r d u where ks: "ks = (l, r, d, u)" by (cases ks) auto
  have "run_frames (update_scale scale0 l r, update_maxDepth maxDepth0 d u) frames =
      (scale, maxDepth)"
    using Cons.prems(3) unfolding ks by simp
  then show ?case
    by (rule Cons.IH[OF update_scale_valid[OF Cons.prems(1)] update_maxDepth_valid[OF Cons.prems(2)]])
qed

text \<open>
  C9, the claim as stated fails.  \<^verbatim>\<open>render\<close> has no check of its parameters.  With
  \<open>scale = 0\<close> its first statement divides by zero.  With \<open>maxDepth = -1\<close> the depth
  test of \<^verbatim>\<open>cast_ray\<close> is false at depth \<open>0\<close>, as the conversion to \<^verbatim>\<open>size_t\<close> makes
  \<open>-1\<close> the largest value: the value is used as it is, neither rejected nor clamped.
\<close>

theorem render_does_not_check:
  "render 6 [] [] 0 4 = Inl DivisionByZero \<and> \<not> depth_exceeded 0 (- 1)"
  by (simp add: render_def depth_exceeded_def)

text \<open>
  C9, amended.  The values are kept in range by the caller: from the initial
  \<open>scale = 8\<close> and \<open>maxDepth = 4\<close>, whatever keys are pressed in whatever frames,
  \<^verbatim>\<open>main\<close> passes to \<^verbatim>\<open>render\<close> a \<open>scale\<close> among \<open>1, 2, 4, 8, 16\<close> and a \<open>maxDepth\<close>
  from \<open>1\<close> to \<open>4\<close>.
\<close>

theorem main_keeps_settings_valid:
  assumes "run_frames (8, 4) frames = (scale, maxDepth)"
  shows "scale \<in> {1, 2, 4, 8, 16} \<and> 1 \<le> maxDepth \<and> maxDepth \<le> 4"
  by (rule run_frames_valid[OF _ _ assms]) simp_all

theorem main_keeps_settings_valid_witness:
  "run_frames (8, 4)
     [(True, False, True, False), (False, True, False, True), (False, True, False, True)] =
     (16, 4) \<and>
   (16 :: int) \<in> {1, 2, 4, 8, 16} \<and> (1 :: int) \<le> 4 \<and> (4 :: int) \<le> 4"
proof -
  have r: "run_frames (8, 4)
     [(True, False, True, False), (False, True, False, True), (False, True, False, True)] =
     (16, 4)"
    by (simp add: update_scale_def update_maxDepth_def signed_divide_int_def)
  from main_keeps_settings_valid[OF r] r show ?thesis by simp
qed

end
